theory Spec2Isabelle
  imports Complex_Main "HOL-Library.AList"
begin

section \<open>Data model\<close>

text \<open>
  The service stores users and calculations in a relational store reached through an ORM
  session. Operands and results are floating-point columns in the program; they are
  modelled as \<open>real\<close>, so rounding is outside the model. Timestamps and durations
  are whole seconds.
\<close>

text \<open>A password digest is symbolic: the salt the hasher drew and the text it hashed.\<close>

datatype digest = Bcrypt string string

record user =
  user_id :: int
  username :: string
  email :: string
  password_hash :: digest
  is_active :: bool
  user_created_at :: int

record calculation =
  calc_id :: int
  calc_user_id :: int
  calc_a :: real
  calc_b :: real
  calc_type :: string
  calc_result :: real
  calc_created_at :: int

text \<open>The tables keep insertion order; primary keys come from a counter per table.\<close>

record database =
  users :: "user list"
  calculations :: "calculation list"
  next_user_id :: int
  next_calc_id :: int

text \<open>
  An ORM session: \<open>working\<close> is what the session sees (rows it added, changed or
  deleted included), \<open>committed\<close> is what the store holds for every other request.
\<close>

record session =
  committed :: database
  working :: database

text \<open>
  What a request takes from its environment: the process configuration of
  \<^verbatim>\<open>auth.py\<close> (\<^verbatim>\<open>SECRET_KEY\<close>, \<^verbatim>\<open>ACCESS_TOKEN_EXPIRE_MINUTES\<close>),
  the clock, the salt the hasher draws, whether the store accepts the commit, and whether
  it answers the reload that follows a commit.
\<close>

record env =
  secret_key :: string
  access_token_expire_minutes :: int
  env_now :: int
  env_salt :: string
  commit_ok :: bool
  refresh_ok :: bool

datatype http_error = HTTPException nat string

fun status_code :: "http_error \<Rightarrow> nat" where
  "status_code (HTTPException code detail) = code"

section \<open>Session operations\<close>

definition begin_session :: "database \<Rightarrow> session" where
  "begin_session d = \<lparr>committed = d, working = d\<rparr>"

text \<open>\<^verbatim>\<open>db.commit()\<close>: raises when the store refuses, else publishes the working state.\<close>

definition db_commit :: "env \<Rightarrow> session \<Rightarrow> unit + session" where
  "db_commit e db = (if commit_ok e then Inr (db\<lparr>committed := working db\<rparr>) else Inl ())"

text \<open>\<^verbatim>\<open>db.rollback()\<close>: the session forgets everything that was not committed.\<close>

definition db_rollback :: "session \<Rightarrow> session" where
  "db_rollback db = db\<lparr>working := committed db\<rparr>"

text \<open>
  \<^verbatim>\<open>db.refresh(row)\<close>: reloads the row from the store, which holds what was just
  committed; raises when the store does not answer. The calculation handlers call it
  inside their \<^verbatim>\<open>try\<close>, after the commit.
\<close>

definition db_refresh :: "env \<Rightarrow> 'row \<Rightarrow> unit + 'row" where
  "db_refresh e row = (if refresh_ok e then Inr row else Inl ())"

text \<open>\<^verbatim>\<open>db.add(row)\<close> for a new calculation: the store assigns the primary key.\<close>

definition db_add_calculation :: "calculation \<Rightarrow> session \<Rightarrow> calculation \<times> session" where
  "db_add_calculation row db =
     (let w = working db;
          row' = row\<lparr>calc_id := next_calc_id w\<rparr>
      in (row', db\<lparr>working := w\<lparr>calculations := calculations w @ [row'],
                                next_calc_id := next_calc_id w + 1\<rparr>\<rparr>))"

definition db_add_user :: "user \<Rightarrow> session \<Rightarrow> user \<times> session" where
  "db_add_user row db =
     (let w = working db;
          row' = row\<lparr>user_id := next_user_id w\<rparr>
      in (row', db\<lparr>working := w\<lparr>users := users w @ [row'],
                                next_user_id := next_user_id w + 1\<rparr>\<rparr>))"

text \<open>Assigning to attributes of a loaded row marks it dirty in the session.\<close>

definition db_set_calculation :: "calculation \<Rightarrow> session \<Rightarrow> session" where
  "db_set_calculation row db =
     db\<lparr>working := (working db)\<lparr>calculations :=
        map (\<lambda>r. if calc_id r = calc_id row then row else r) (calculations (working db))\<rparr>\<rparr>"

definition db_set_user :: "user \<Rightarrow> session \<Rightarrow> session" where
  "db_set_user row db =
     db\<lparr>working := (working db)\<lparr>users :=
        map (\<lambda>r. if user_id r = user_id row then row else r) (users (working db))\<rparr>\<rparr>"

definition db_delete_calculation :: "calculation \<Rightarrow> session \<Rightarrow> session" where
  "db_delete_calculation row db =
     db\<lparr>working := (working db)\<lparr>calculations :=
        filter (\<lambda>r. calc_id r \<noteq> calc_id row) (calculations (working db))\<rparr>\<rparr>"

definition db_delete_user :: "user \<Rightarrow> session \<Rightarrow> session" where
  "db_delete_user row db =
     db\<lparr>working := (working db)\<lparr>users :=
        filter (\<lambda>r. user_id r \<noteq> user_id row) (users (working db))\<rparr>\<rparr>"

section \<open>Calculation engine\<close>

datatype calc_error = DivisionByZeroError | InvalidOperationError string

text \<open>
  Modelled from the spec: \<^verbatim>\<open>app/operations.py\<close> (\<^verbatim>\<open>calculate\<close> and its two
  exceptions) is imported by \<^verbatim>\<open>calculations.py\<close> but is not among the sources.
  Section 4.4 of the specification: add gives \<open>a + b\<close>, subtract \<open>a - b\<close>, multiply
  \<open>a * b\<close>, divide \<open>a / b\<close> but fails with DivisionByZero when \<open>b = 0\<close>; any other
  tag fails with InvalidOperation. The text of the InvalidOperation message is not
  specified; the model carries the rejected tag.
\<close>

definition calculate :: "real \<Rightarrow> real \<Rightarrow> string \<Rightarrow> calc_error + real" where
  "calculate x y operation =
     (if operation = ''add'' then Inr (x + y)
      else if operation = ''subtract'' then Inr (x - y)
      else if operation = ''multiply'' then Inr (x * y)
      else if operation = ''divide'' then
        (if y = 0 then Inl DivisionByZeroError else Inr (x / y))
      else Inl (InvalidOperationError operation))"

section \<open>Credential hasher and token service (auth.py)\<close>

text \<open>
  Modelled from the spec: the hashing context (passlib) is a library. Section 4.1:
  \<open>hash\<close> gives a salted digest, \<open>verify\<close> recomputes with the embedded salt and
  compares, returning false on a mismatch.
\<close>

definition hash_password :: "string \<Rightarrow> string \<Rightarrow> digest" where
  "hash_password salt password = Bcrypt salt password"

fun verify_password :: "string \<Rightarrow> digest \<Rightarrow> bool" where
  "verify_password plain_password (Bcrypt salt hashed) = (plain_password = hashed)"

definition get_password_hash :: "string \<Rightarrow> string \<Rightarrow> digest" where
  "get_password_hash salt password = hash_password salt password"

text \<open>
  Claims are a Python dict: an association list in insertion order, whose values are JSON
  strings or numeric dates.
\<close>

datatype claim = Str string | Time int

type_synonym claims = "(string \<times> claim) list"

text \<open>
  Modelled from the spec: the token library (jose) is external. Section 4.2: a token is
  self-contained, embeds the claims and is signed with the secret key; validation fails on
  a bad signature, a malformed structure, or an expiry in the past. The signature is
  symbolic: a token is either the payload together with the key that signed it, or a text
  that is no token at all.
\<close>

datatype token = Signed string claims | Malformed string

datatype jwt_error = JWTError

definition jwt_encode :: "claims \<Rightarrow> string \<Rightarrow> token" where
  "jwt_encode payload key = Signed key payload"

definition jwt_decode :: "token \<Rightarrow> string \<Rightarrow> int \<Rightarrow> jwt_error + claims" where
  "jwt_decode tok key current =
     (case tok of
        Malformed text \<Rightarrow> Inl JWTError
      | Signed k payload \<Rightarrow>
          if k \<noteq> key then Inl JWTError
          else (case map_of payload ''exp'' of
                  None \<Rightarrow> Inr payload
                | Some (Str text) \<Rightarrow> Inl JWTError
                | Some (Time expiry) \<Rightarrow>
                    if expiry < current then Inl JWTError else Inr payload))"

text \<open>
  \<^verbatim>\<open>if expires_delta:\<close> is Python truthiness: an absent delta and a zero delta both
  take the default.
\<close>

definition create_access_token :: "env \<Rightarrow> claims \<Rightarrow> int option \<Rightarrow> token" where
  "create_access_token e data expires_delta =
     (let expire = (case expires_delta of
                      Some delta \<Rightarrow>
                        if delta \<noteq> 0 then env_now e + delta
                        else env_now e + 60 * access_token_expire_minutes e
                    | None \<Rightarrow> env_now e + 60 * access_token_expire_minutes e);
          to_encode = AList.update ''exp'' (Time expire) data
      in jwt_encode to_encode (secret_key e))"

definition decode_access_token :: "env \<Rightarrow> token \<Rightarrow> claims option" where
  "decode_access_token e tok =
     (case jwt_decode tok (secret_key e) (env_now e) of
        Inr payload \<Rightarrow> Some payload
      | Inl JWTError \<Rightarrow> None)"

section \<open>Identity resolver (users.py)\<close>

text \<open>
  \<^verbatim>\<open>security = HTTPBearer()\<close> is the framework's bearer scheme, run before the
  resolver. A request carries either no bearer token or one. The tests of the repository
  (\<^verbatim>\<open>test_add_calculation_without_auth\<close>, \<^verbatim>\<open>test_edit_calculation_without_auth\<close>,
  \<^verbatim>\<open>test_delete_calculation_without_auth\<close>) fix what the scheme does without a
  token: status 403.
\<close>

definition security :: "token option \<Rightarrow> http_error + token" where
  "security header =
     (case header of
        None \<Rightarrow> Inl (HTTPException 403 ''Not authenticated'')
      | Some credentials \<Rightarrow> Inr credentials)"

definition credentials_exception :: http_error where
  "credentials_exception = HTTPException 401 ''Could not validate credentials''"

definition get_current_user_dependency :: "env \<Rightarrow> token \<Rightarrow> session \<Rightarrow> http_error + user" where
  "get_current_user_dependency e credentials db =
     (case decode_access_token e credentials of
        None \<Rightarrow> Inl credentials_exception
      | Some payload \<Rightarrow>
          (case map_of payload ''sub'' of
             None \<Rightarrow> Inl credentials_exception
           | Some subject \<Rightarrow>
               (case find (\<lambda>u. Str (username u) = subject) (users (working db)) of
                  None \<Rightarrow> Inl credentials_exception
                | Some found \<Rightarrow> Inr found)))"

section \<open>Request and response schemas\<close>

text \<open>
  The request bodies and response projections of \<^verbatim>\<open>app/schemas.py\<close>, with the fields
  the handlers read and write. Bodies reach a handler after schema validation.
\<close>

record calculation_create =
  cc_a :: real
  cc_b :: real
  cc_type :: string

record calculation_update =
  cu_a :: "real option"
  cu_b :: "real option"
  cu_type :: "string option"

record user_create =
  uc_username :: string
  uc_email :: string
  uc_password :: string

record user_login =
  ul_username :: string
  ul_password :: string

record user_update =
  uu_username :: "string option"
  uu_email :: "string option"
  uu_password :: "string option"

text \<open>The public projection of a user: every column but the password digest.\<close>

record user_response =
  ur_id :: int
  ur_username :: string
  ur_email :: string
  ur_is_active :: bool
  ur_created_at :: int

definition model_validate :: "user \<Rightarrow> user_response" where
  "model_validate u =
     \<lparr>ur_id = user_id u, ur_username = username u, ur_email = email u,
      ur_is_active = is_active u, ur_created_at = user_created_at u\<rparr>"

record auth_response =
  ar_message :: string
  ar_user :: user_response
  ar_access_token :: token
  ar_token_type :: string

section \<open>Calculation endpoints (calculations.py)\<close>

text \<open>
  Every handler takes the session of its request and returns its outcome together with
  the session it leaves: \<open>Inl\<close> is the \<^verbatim>\<open>HTTPException\<close> it raises.
\<close>

definition add_calculation ::
  "env \<Rightarrow> calculation_create \<Rightarrow> user \<Rightarrow> session \<Rightarrow> (http_error + calculation) \<times> session" where
  "add_calculation e calculation_data current_user db =
     (case calculate (cc_a calculation_data) (cc_b calculation_data) (cc_type calculation_data) of
        Inl DivisionByZeroError \<Rightarrow>
          (Inl (HTTPException 400 ''Division by zero is not allowed''), db)
      | Inl (InvalidOperationError msg) \<Rightarrow> (Inl (HTTPException 400 msg), db)
      | Inr result \<Rightarrow>
          (let (new_calculation, db1) =
                 db_add_calculation
                   \<lparr>calc_id = 0, calc_user_id = user_id current_user,
                    calc_a = cc_a calculation_data, calc_b = cc_b calculation_data,
                    calc_type = cc_type calculation_data, calc_result = result,
                    calc_created_at = env_now e\<rparr> db
           in case db_commit e db1 of
                Inl failure \<Rightarrow>
                  (Inl (HTTPException 500 ''Internal server error while creating calculation''),
                   db_rollback db1)
              | Inr db2 \<Rightarrow>
                  (case db_refresh e new_calculation of
                     Inl failure \<Rightarrow>
                       (Inl (HTTPException 500
                               ''Internal server error while creating calculation''),
                        db_rollback db2)
                   | Inr refreshed \<Rightarrow> (Inr refreshed, db2))))"

text \<open>
  \<^verbatim>\<open>order_by(created_at.desc()).offset(skip).limit(limit)\<close>. A negative skip or
  limit, which the store itself would treat in its own way, counts as zero here.
\<close>

definition browse_calculations ::
  "int \<Rightarrow> int \<Rightarrow> user \<Rightarrow> session \<Rightarrow> (http_error + calculation list) \<times> session" where
  "browse_calculations skip limit current_user db =
     (let limit' = min limit 1000;
          calcs = take (nat limit') (drop (nat skip)
                    (sort_key (\<lambda>c. - calc_created_at c)
                       (filter (\<lambda>c. calc_user_id c = user_id current_user)
                          (calculations (working db)))))
      in (Inr calcs, db))"

definition calculation_not_found :: http_error where
  "calculation_not_found = HTTPException 404 ''Calculation not found''"

definition query_calculation :: "int \<Rightarrow> user \<Rightarrow> session \<Rightarrow> calculation option" where
  "query_calculation calculation_id current_user db =
     find (\<lambda>c. calc_id c = calculation_id \<and> calc_user_id c = user_id current_user)
       (calculations (working db))"

definition read_calculation ::
  "int \<Rightarrow> user \<Rightarrow> session \<Rightarrow> (http_error + calculation) \<times> session" where
  "read_calculation calculation_id current_user db =
     (case query_calculation calculation_id current_user db of
        None \<Rightarrow> (Inl calculation_not_found, db)
      | Some calc \<Rightarrow> (Inr calc, db))"

text \<open>The three \<^verbatim>\<open>if ... is not None\<close> assignments of the update handler.\<close>

definition apply_update :: "calculation_update \<Rightarrow> calculation \<Rightarrow> calculation" where
  "apply_update calculation_data calc =
     (let c1 = (case cu_a calculation_data of Some v \<Rightarrow> calc\<lparr>calc_a := v\<rparr> | None \<Rightarrow> calc);
          c2 = (case cu_b calculation_data of Some v \<Rightarrow> c1\<lparr>calc_b := v\<rparr> | None \<Rightarrow> c1);
          c3 = (case cu_type calculation_data of Some v \<Rightarrow> c2\<lparr>calc_type := v\<rparr> | None \<Rightarrow> c2)
      in c3)"

definition updated :: "calculation_update \<Rightarrow> bool" where
  "updated calculation_data \<longleftrightarrow>
     cu_a calculation_data \<noteq> None \<or> cu_b calculation_data \<noteq> None \<or>
     cu_type calculation_data \<noteq> None"

definition edit_calculation ::
  "env \<Rightarrow> int \<Rightarrow> calculation_update \<Rightarrow> user \<Rightarrow> session \<Rightarrow>
     (http_error + calculation) \<times> session" where
  "edit_calculation e calculation_id calculation_data current_user db =
     (case query_calculation calculation_id current_user db of
        None \<Rightarrow> (Inl calculation_not_found, db)
      | Some calc \<Rightarrow>
          if \<not> updated calculation_data then (Inr calc, db)
          else
            (let calc1 = apply_update calculation_data calc;
                 db1 = db_set_calculation calc1 db
             in case calculate (calc_a calc1) (calc_b calc1) (calc_type calc1) of
                  Inl DivisionByZeroError \<Rightarrow>
                    (Inl (HTTPException 400 ''Division by zero is not allowed''),
                     db_rollback db1)
                | Inl (InvalidOperationError msg) \<Rightarrow>
                    (Inl (HTTPException 400 msg), db_rollback db1)
                | Inr result \<Rightarrow>
                    (let calc2 = calc1\<lparr>calc_result := result\<rparr>;
                         db2 = db_set_calculation calc2 db1
                     in case db_commit e db2 of
                          Inl failure \<Rightarrow>
                            (Inl (HTTPException 500
                                    ''Internal server error while updating calculation''),
                             db_rollback db2)
                        | Inr db3 \<Rightarrow>
                            (case db_refresh e calc2 of
                               Inl failure \<Rightarrow>
                                 (Inl (HTTPException 500
                                         ''Internal server error while updating calculation''),
                                  db_rollback db3)
                             | Inr refreshed \<Rightarrow> (Inr refreshed, db3)))))"

definition edit_calculation_patch ::
  "env \<Rightarrow> int \<Rightarrow> calculation_update \<Rightarrow> user \<Rightarrow> session \<Rightarrow>
     (http_error + calculation) \<times> session" where
  "edit_calculation_patch e calculation_id calculation_data current_user db =
     edit_calculation e calculation_id calculation_data current_user db"

text \<open>Python's \<^verbatim>\<open>str\<close> of an integer, for the confirmation messages.\<close>

definition digit_char :: "nat \<Rightarrow> char" where
  "digit_char d = char_of (48 + d)"

function str_nat :: "nat \<Rightarrow> string" where
  "str_nat n = (if n < 10 then [digit_char n] else str_nat (n div 10) @ [digit_char (n mod 10)])"
  by pat_completeness auto
termination
  by (relation "measure id") auto

declare str_nat.simps [simp del]

definition str_int :: "int \<Rightarrow> string" where
  "str_int i = (if i < 0 then CHR ''-'' # str_nat (nat (- i)) else str_nat (nat i))"

text \<open>
  An exception that no handler catches (here: a refused commit) leaves the endpoint as
  the server's own status 500.
\<close>

definition internal_server_error :: http_error where
  "internal_server_error = HTTPException 500 ''Internal Server Error''"

definition delete_calculation ::
  "env \<Rightarrow> int \<Rightarrow> user \<Rightarrow> session \<Rightarrow> (http_error + string) \<times> session" where
  "delete_calculation e calculation_id current_user db =
     (case query_calculation calculation_id current_user db of
        None \<Rightarrow> (Inl calculation_not_found, db)
      | Some calc \<Rightarrow>
          (let db1 = db_delete_calculation calc db
           in case db_commit e db1 of
                Inr db2 \<Rightarrow>
                  (Inr (''Calculation '' @ str_int calculation_id @ '' deleted successfully''),
                   db2)
              | Inl failure \<Rightarrow> (Inl internal_server_error, db1)))"

section \<open>User endpoints (users.py)\<close>

definition token_for :: "env \<Rightarrow> user \<Rightarrow> token" where
  "token_for e u =
     create_access_token e [(''sub'', Str (username u))]
       (Some (60 * access_token_expire_minutes e))"

text \<open>
  A new row takes the column defaults of the user table: active, created now. (The
  fixtures of the test suite log in right after registering, so a new user is active.)
\<close>

definition register_user ::
  "env \<Rightarrow> user_create \<Rightarrow> session \<Rightarrow> (http_error + auth_response) \<times> session" where
  "register_user e user_data db =
     (case find (\<lambda>u. username u = uc_username user_data) (users (working db)) of
        Some existing_user \<Rightarrow>
          (Inl (HTTPException 400 ''Username already registered''), db)
      | None \<Rightarrow>
          (case find (\<lambda>u. email u = uc_email user_data) (users (working db)) of
             Some existing_email \<Rightarrow>
               (Inl (HTTPException 400 ''Email already registered''), db)
           | None \<Rightarrow>
               (let hashed_password = hash_password (env_salt e) (uc_password user_data);
                    (new_user, db1) =
                      db_add_user
                        \<lparr>user_id = 0, username = uc_username user_data,
                         email = uc_email user_data, password_hash = hashed_password,
                         is_active = True, user_created_at = env_now e\<rparr> db
                in case db_commit e db1 of
                     Inl failure \<Rightarrow> (Inl internal_server_error, db1)
                   | Inr db2 \<Rightarrow>
                       (Inr \<lparr>ar_message = ''Registration successful'',
                             ar_user = model_validate new_user,
                             ar_access_token = token_for e new_user,
                             ar_token_type = ''bearer''\<rparr>, db2))))"

definition login_user ::
  "env \<Rightarrow> user_login \<Rightarrow> session \<Rightarrow> (http_error + auth_response) \<times> session" where
  "login_user e login_data db =
     (case find (\<lambda>u. username u = ul_username login_data \<or> email u = ul_username login_data)
             (users (working db)) of
        None \<Rightarrow> (Inl (HTTPException 401 ''Invalid username or password''), db)
      | Some found \<Rightarrow>
          if \<not> verify_password (ul_password login_data) (password_hash found)
          then (Inl (HTTPException 401 ''Invalid username or password''), db)
          else if \<not> is_active found
          then (Inl (HTTPException 403 ''User account is inactive''), db)
          else (Inr \<lparr>ar_message = ''Login successful'',
                     ar_user = model_validate found,
                     ar_access_token = token_for e found,
                     ar_token_type = ''bearer''\<rparr>, db))"

definition get_current_user_info :: "user \<Rightarrow> session \<Rightarrow> (http_error + user) \<times> session" where
  "get_current_user_info current_user db = (Inr current_user, db)"

definition get_users :: "int \<Rightarrow> int \<Rightarrow> session \<Rightarrow> (http_error + user list) \<times> session" where
  "get_users skip limit db = (Inr (take (nat limit) (drop (nat skip) (users (working db)))), db)"

definition user_not_found :: http_error where
  "user_not_found = HTTPException 404 ''User not found''"

definition get_user :: "int \<Rightarrow> session \<Rightarrow> (http_error + user) \<times> session" where
  "get_user uid db =
     (case find (\<lambda>u. user_id u = uid) (users (working db)) of
        None \<Rightarrow> (Inl user_not_found, db)
      | Some found \<Rightarrow> (Inr found, db))"

text \<open>\<^verbatim>\<open>if user_data.username:\<close> is truthiness: a field is taken when present and not empty.\<close>

definition truthy :: "string option \<Rightarrow> bool" where
  "truthy field = (case field of None \<Rightarrow> False | Some text \<Rightarrow> text \<noteq> [])"

definition update_user ::
  "env \<Rightarrow> int \<Rightarrow> user_update \<Rightarrow> session \<Rightarrow> (http_error + user) \<times> session" where
  "update_user e uid user_data db =
     (case find (\<lambda>u. user_id u = uid) (users (working db)) of
        None \<Rightarrow> (Inl user_not_found, db)
      | Some found \<Rightarrow>
          if truthy (uu_username user_data) \<and>
             find (\<lambda>u. username u = the (uu_username user_data) \<and> user_id u \<noteq> uid)
               (users (working db)) \<noteq> None
          then (Inl (HTTPException 400 ''Username already taken''), db)
          else
            (let user1 = (if truthy (uu_username user_data)
                          then found\<lparr>username := the (uu_username user_data)\<rparr> else found);
                 db1 = db_set_user user1 db
             in if truthy (uu_email user_data) \<and>
                   find (\<lambda>u. email u = the (uu_email user_data) \<and> user_id u \<noteq> uid)
                     (users (working db1)) \<noteq> None
                then (Inl (HTTPException 400 ''Email already taken''), db1)
                else
                  (let user2 = (if truthy (uu_email user_data)
                                then user1\<lparr>email := the (uu_email user_data)\<rparr> else user1);
                       user3 = (if truthy (uu_password user_data)
                                then user2\<lparr>password_hash :=
                                       hash_password (env_salt e) (the (uu_password user_data))\<rparr>
                                else user2);
                       db2 = db_set_user user3 db1
                   in case db_commit e db2 of
                        Inl failure \<Rightarrow> (Inl internal_server_error, db2)
                      | Inr db3 \<Rightarrow> (Inr user3, db3))))"

definition delete_user :: "env \<Rightarrow> int \<Rightarrow> session \<Rightarrow> (http_error + string) \<times> session" where
  "delete_user e uid db =
     (case find (\<lambda>u. user_id u = uid) (users (working db)) of
        None \<Rightarrow> (Inl user_not_found, db)
      | Some found \<Rightarrow>
          (let db1 = db_delete_user found db
           in case db_commit e db1 of
                Inl failure \<Rightarrow> (Inl internal_server_error, db1)
              | Inr db2 \<Rightarrow>
                  (Inr (''User '' @ [CHR 0x27] @ username found @ [CHR 0x27] @
                        '' deleted successfully''), db2)))"

section \<open>Routing\<close>

text \<open>
  The routes the two routers declare, each with the parameters of its handler. A route
  whose handler declares \<^verbatim>\<open>Depends(get_current_user_dependency)\<close> runs the bearer scheme
  and the resolver first; the others never look at the token.
\<close>

datatype endpoint =
    Register user_create
  | Login user_login
  | Me
  | GetUsers int int
  | GetUser int
  | UpdateUser int user_update
  | DeleteUser int
  | AddCalculation calculation_create
  | BrowseCalculations int int
  | ReadCalculation int
  | EditCalculation int calculation_update
  | EditCalculationPatch int calculation_update
  | DeleteCalculation int

datatype body =
    AuthBody auth_response
  | UserBody user_response
  | UsersBody "user_response list"
  | CalculationBody calculation
  | CalculationsBody "calculation list"
  | MessageBody string

type_synonym response = "http_error + nat \<times> body"

definition respond ::
  "nat \<Rightarrow> ('a \<Rightarrow> body) \<Rightarrow> (http_error + 'a) \<times> session \<Rightarrow> response \<times> session" where
  "respond code render outcome =
     (case fst outcome of
        Inl err \<Rightarrow> (Inl err, snd outcome)
      | Inr result \<Rightarrow> (Inr (code, render result), snd outcome))"

definition authenticated ::
  "env \<Rightarrow> token option \<Rightarrow> session \<Rightarrow> (user \<Rightarrow> response \<times> session) \<Rightarrow> response \<times> session" where
  "authenticated e header db handler =
     (case security header of
        Inl err \<Rightarrow> (Inl err, db)
      | Inr credentials \<Rightarrow>
          (case get_current_user_dependency e credentials db of
             Inl err \<Rightarrow> (Inl err, db)
           | Inr current_user \<Rightarrow> handler current_user))"

fun dispatch :: "env \<Rightarrow> token option \<Rightarrow> endpoint \<Rightarrow> session \<Rightarrow> response \<times> session" where
  "dispatch e header (Register user_data) db =
     respond 201 AuthBody (register_user e user_data db)"
| "dispatch e header (Login login_data) db =
     respond 200 AuthBody (login_user e login_data db)"
| "dispatch e header Me db =
     authenticated e header db
       (\<lambda>current_user. respond 200 (UserBody \<circ> model_validate)
          (get_current_user_info current_user db))"
| "dispatch e header (GetUsers skip limit) db =
     respond 200 (UsersBody \<circ> map model_validate) (get_users skip limit db)"
| "dispatch e header (GetUser uid) db =
     respond 200 (UserBody \<circ> model_validate) (get_user uid db)"
| "dispatch e header (UpdateUser uid user_data) db =
     respond 200 (UserBody \<circ> model_validate) (update_user e uid user_data db)"
| "dispatch e header (DeleteUser uid) db =
     respond 200 MessageBody (delete_user e uid db)"
| "dispatch e header (AddCalculation calculation_data) db =
     authenticated e header db
       (\<lambda>current_user. respond 201 CalculationBody
          (add_calculation e calculation_data current_user db))"
| "dispatch e header (BrowseCalculations skip limit) db =
     authenticated e header db
       (\<lambda>current_user. respond 200 CalculationsBody
          (browse_calculations skip limit current_user db))"
| "dispatch e header (ReadCalculation calculation_id) db =
     authenticated e header db
       (\<lambda>current_user. respond 200 CalculationBody
          (read_calculation calculation_id current_user db))"
| "dispatch e header (EditCalculation calculation_id calculation_data) db =
     authenticated e header db
       (\<lambda>current_user. respond 200 CalculationBody
          (edit_calculation e calculation_id calculation_data current_user db))"
| "dispatch e header (EditCalculationPatch calculation_id calculation_data) db =
     authenticated e header db
       (\<lambda>current_user. respond 200 CalculationBody
          (edit_calculation_patch e calculation_id calculation_data current_user db))"
| "dispatch e header (DeleteCalculation calculation_id) db =
     authenticated e header db
       (\<lambda>current_user. respond 200 MessageBody
          (delete_calculation e calculation_id current_user db))"

text \<open>
  One request: a fresh session on the store, the route, and the session closed. What the
  next request finds is what was committed.
\<close>

definition serve :: "env \<Rightarrow> token option \<Rightarrow> endpoint \<Rightarrow> database \<Rightarrow> response \<times> database" where
  "serve e header ep d =
     (let outcome = dispatch e header ep (begin_session d)
      in (fst outcome, committed (snd outcome)))"

text \<open>The same for a handler alone, once the caller's identity is resolved.\<close>

definition request ::
  "(session \<Rightarrow> (http_error + 'a) \<times> session) \<Rightarrow> database \<Rightarrow> (http_error + 'a) \<times> database" where
  "request handler d =
     (let outcome = handler (begin_session d) in (fst outcome, committed (snd outcome)))"

section \<open>Example data\<close>

definition env0 :: env where
  "env0 = \<lparr>secret_key = ''your-secret-key-change-this-in-production'',
            access_token_expire_minutes = 30, env_now = 1000, env_salt = ''pepper'',
            commit_ok = True, refresh_ok = True\<rparr>"

definition alice :: user where
  "alice = \<lparr>user_id = 1, username = ''alice'', email = ''alice@x.com'',
             password_hash = Bcrypt ''pepper'' ''password123'', is_active = True,
             user_created_at = 1000\<rparr>"

definition bob :: user where
  "bob = \<lparr>user_id = 2, username = ''bob'', email = ''bob@x.com'',
           password_hash = Bcrypt ''pepper'' ''hunter2hunter2'', is_active = False,
           user_created_at = 1000\<rparr>"

definition empty_db :: database where
  "empty_db = \<lparr>users = [], calculations = [], next_user_id = 1, next_calc_id = 1\<rparr>"

definition ten_plus_five :: calculation where
  "ten_plus_five = \<lparr>calc_id = 1, calc_user_id = 1, calc_a = 10, calc_b = 5,
                     calc_type = ''add'', calc_result = 15, calc_created_at = 1000\<rparr>"

definition two_users_db :: database where
  "two_users_db = \<lparr>users = [alice, bob], calculations = [ten_plus_five],
                    next_user_id = 3, next_calc_id = 2\<rparr>"

text \<open>The store after alice creates \<open>10 + 5\<close> in the empty store.\<close>

definition after_create :: database where
  "after_create =
     snd (request (add_calculation env0 \<lparr>cc_a = 10, cc_b = 5, cc_type = ''add''\<rparr> alice)
            empty_db)"

definition b_to_eight :: calculation_update where
  "b_to_eight = \<lparr>cu_a = None, cu_b = Some 8, cu_type = None\<rparr>"

definition reload_fails :: env where
  "reload_fails = env0\<lparr>refresh_ok := False\<rparr>"

definition commit_fails :: env where
  "commit_fails = env0\<lparr>commit_ok := False\<rparr>"

definition ten_plus_eight :: calculation where
  "ten_plus_eight = \<lparr>calc_id = 1, calc_user_id = 1, calc_a = 10, calc_b = 8,
                      calc_type = ''add'', calc_result = 18, calc_created_at = 1000\<rparr>"

definition divide_by_zero :: calculation_update where
  "divide_by_zero = \<lparr>cu_a = None, cu_b = Some 0, cu_type = Some ''divide''\<rparr>"

text \<open>A token signed with the key of \<^const>\<open>env0\<close>, for a subject and an expiry.\<close>

definition token_of :: "string \<Rightarrow> int \<Rightarrow> token" where
  "token_of name expiry =
     Signed ''your-secret-key-change-this-in-production''
       [(''sub'', Str name), (''exp'', Time expiry)]"




section \<open>Statement helpers\<close>

text \<open>
  The expiry that \<^const>\<open>create_access_token\<close> writes into a token issued at the
  time of \<open>e\<close>: the given lifetime when there is one and it is not zero, the
  configured minutes otherwise.
\<close>

definition expiry_of :: "env \<Rightarrow> int option \<Rightarrow> int" where
  "expiry_of e ttl = env_now e +
     (case ttl of
        None \<Rightarrow> 60 * access_token_expire_minutes e
      | Some delta \<Rightarrow> if delta = 0 then 60 * access_token_expire_minutes e else delta)"




text \<open>The routes whose handler declares the identity dependency.\<close>

fun protected :: "endpoint \<Rightarrow> bool" where
  "protected Me = True"
| "protected (AddCalculation calculation_data) = True"
| "protected (BrowseCalculations skip limit) = True"
| "protected (ReadCalculation calculation_id) = True"
| "protected (EditCalculation calculation_id calculation_data) = True"
| "protected (EditCalculationPatch calculation_id calculation_data) = True"
| "protected (DeleteCalculation calculation_id) = True"
| "protected ep = False"

text \<open>The same session with every user marked inactive.\<close>

definition deactivate_all :: "session \<Rightarrow> session" where
  "deactivate_all db =
     db\<lparr>working := (working db)\<lparr>users :=
        map (\<lambda>u. u\<lparr>is_active := False\<rparr>) (users (working db))\<rparr>\<rparr>"

text \<open>The row the login query returns: the first whose username or email is the given name.\<close>

definition login_match :: "string \<Rightarrow> database \<Rightarrow> user option" where
  "login_match name d = find (\<lambda>u. username u = name \<or> email u = name) (users d)"



text \<open>
  Primary keys: identifiers are distinct within a table and below the counter that
  assigns the next one.
\<close>

definition keys_ok :: "database \<Rightarrow> bool" where
  "keys_ok d \<longleftrightarrow>
     distinct (map user_id (users d)) \<and> distinct (map calc_id (calculations d)) \<and>
     (\<forall>u \<in> set (users d). user_id u < next_user_id d) \<and>
     (\<forall>c \<in> set (calculations d). calc_id c < next_calc_id d)"

text \<open>Both the store and the working state of a session keep their keys.\<close>

definition session_ok :: "session \<Rightarrow> bool" where
  "session_ok db \<longleftrightarrow> keys_ok (committed db) \<and> keys_ok (working db)"

section \<open>Basic facts\<close>

lemma calculate_divide:
  "calculate x y ''divide'' = (if y = 0 then Inl DivisionByZeroError else Inr (x / y))"
  by (simp add: calculate_def)

lemma decode_Signed:
  "decode_access_token e (Signed k p) =
     (if k \<noteq> secret_key e then None
      else case map_of p ''exp'' of
             None \<Rightarrow> Some p
           | Some (Str text) \<Rightarrow> None
           | Some (Time expiry) \<Rightarrow> if expiry < env_now e then None else Some p)"
  by (simp add: decode_access_token_def jwt_decode_def split: option.splits claim.splits)

lemma decode_Malformed: "decode_access_token e (Malformed text) = None"
  by (simp add: decode_access_token_def jwt_decode_def)

lemma create_access_token_eq:
  "create_access_token e data ttl =
     Signed (secret_key e) (AList.update ''exp'' (Time (expiry_of e ttl)) data)"
  by (simp add: create_access_token_def jwt_encode_def expiry_of_def Let_def
      split: option.splits)

lemma committed_begin [simp]: "committed (begin_session d) = d"
  by (simp add: begin_session_def)

lemma working_begin [simp]: "working (begin_session d) = d"
  by (simp add: begin_session_def)

lemma rollback_begin [simp]: "committed db = d \<Longrightarrow> db_rollback db = begin_session d"
  by (simp add: db_rollback_def begin_session_def)

lemma committed_db_set_calculation [simp]:
  "committed (db_set_calculation row db) = committed db"
  by (simp add: db_set_calculation_def)

lemma committed_db_add_calculation [simp]:
  "committed (snd (db_add_calculation row db)) = committed db"
  by (simp add: db_add_calculation_def Let_def)

lemma apply_update_fields:
  "calc_id (apply_update upd c) = calc_id c"
  "calc_user_id (apply_update upd c) = calc_user_id c"
  "calc_created_at (apply_update upd c) = calc_created_at c"
  "calc_result (apply_update upd c) = calc_result c"
  "calc_a (apply_update upd c) = (case cu_a upd of Some v \<Rightarrow> v | None \<Rightarrow> calc_a c)"
  "calc_b (apply_update upd c) = (case cu_b upd of Some v \<Rightarrow> v | None \<Rightarrow> calc_b c)"
  "calc_type (apply_update upd c) = (case cu_type upd of Some v \<Rightarrow> v | None \<Rightarrow> calc_type c)"
  by (simp_all add: apply_update_def Let_def split: option.splits)

lemma query_calculation_Some:
  "query_calculation cid u db = Some c \<Longrightarrow>
     c \<in> set (calculations (working db)) \<and> calc_id c = cid \<and> calc_user_id c = user_id u"
  unfolding query_calculation_def by (auto simp add: find_Some_iff)

lemma set_twice:
  "calc_id row2 = calc_id row1 \<Longrightarrow>
   db_set_calculation row2 (db_set_calculation row1 db) = db_set_calculation row2 db"
  by (simp add: db_set_calculation_def comp_def cong: if_cong)

lemma after_create_eq:
  "after_create = empty_db\<lparr>calculations := [ten_plus_five], next_calc_id := 2\<rparr>"
  by (simp add: after_create_def request_def add_calculation_def calculate_def Let_def
      db_add_calculation_def db_commit_def db_refresh_def env0_def alice_def empty_db_def
      ten_plus_five_def)

section \<open>Primary keys are kept\<close>

text \<open>
  The statements about a stored record take its identifier to be a key. Every route keeps
  that: from a store whose identifiers are distinct and below the counters, each request
  leaves such a store.
\<close>

lemma session_ok_begin: "keys_ok d \<Longrightarrow> session_ok (begin_session d)"
  by (simp add: session_ok_def begin_session_def)

lemma session_ok_commit:
  "session_ok db \<Longrightarrow> db_commit e db = Inr db' \<Longrightarrow> session_ok db'"
  by (auto simp add: session_ok_def db_commit_def split: if_splits)

lemma session_ok_rollback: "session_ok db \<Longrightarrow> session_ok (db_rollback db)"
  by (simp add: session_ok_def db_rollback_def)

lemma session_ok_restart: "session_ok db \<Longrightarrow> session_ok (begin_session (committed db))"
  by (simp add: session_ok_def begin_session_def)

lemma session_ok_add_calculation:
  "session_ok db \<Longrightarrow> session_ok (snd (db_add_calculation row db))"
  by (fastforce simp add: session_ok_def keys_ok_def db_add_calculation_def Let_def)

lemma session_ok_add_user:
  "session_ok db \<Longrightarrow> session_ok (snd (db_add_user row db))"
  by (fastforce simp add: session_ok_def keys_ok_def db_add_user_def Let_def)

lemma map_id_replace:
  "map f (map (\<lambda>r. if f r = f row then row else r) xs) = map f xs"
  by (induction xs) simp_all

lemma set_replace_bound:
  assumes "\<forall>x \<in> set xs. f x < (n::int)"
  shows "\<forall>x \<in> set (map (\<lambda>r. if f r = f row then row else r) xs). f x < n"
  using assms by (induction xs) auto

lemma keys_ok_replace_calculation:
  assumes "keys_ok d"
  shows "keys_ok (d\<lparr>calculations :=
            map (\<lambda>r. if calc_id r = calc_id row then row else r) (calculations d)\<rparr>)"
proof -
  have "distinct (map calc_id
          (map (\<lambda>r. if calc_id r = calc_id row then row else r) (calculations d)))"
    using assms by (simp only: map_id_replace keys_ok_def)
  moreover have "\<forall>x \<in> set (map (\<lambda>r. if calc_id r = calc_id row then row else r)
                    (calculations d)). calc_id x < next_calc_id d"
    using assms by (intro set_replace_bound) (simp add: keys_ok_def)
  ultimately show ?thesis
    using assms by (simp add: keys_ok_def del: set_map map_map)
qed

lemma keys_ok_replace_user:
  assumes "keys_ok d"
  shows "keys_ok (d\<lparr>users :=
            map (\<lambda>r. if user_id r = user_id row then row else r) (users d)\<rparr>)"
proof -
  have "distinct (map user_id
          (map (\<lambda>r. if user_id r = user_id row then row else r) (users d)))"
    using assms by (simp only: map_id_replace keys_ok_def)
  moreover have "\<forall>x \<in> set (map (\<lambda>r. if user_id r = user_id row then row else r)
                    (users d)). user_id x < next_user_id d"
    using assms by (intro set_replace_bound) (simp add: keys_ok_def)
  ultimately show ?thesis
    using assms by (simp add: keys_ok_def del: set_map map_map)
qed

lemma session_ok_set_calculation:
  "session_ok db \<Longrightarrow> session_ok (db_set_calculation row db)"
  using keys_ok_replace_calculation [of "working db" row]
  by (simp add: session_ok_def db_set_calculation_def)

lemma session_ok_set_user:
  "session_ok db \<Longrightarrow> session_ok (db_set_user row db)"
  using keys_ok_replace_user [of "working db" row]
  by (simp add: session_ok_def db_set_user_def)

lemma session_ok_delete_calculation:
  "session_ok db \<Longrightarrow> session_ok (db_delete_calculation row db)"
  by (simp add: session_ok_def keys_ok_def db_delete_calculation_def distinct_map_filter)

lemma session_ok_delete_user:
  "session_ok db \<Longrightarrow> session_ok (db_delete_user row db)"
  by (simp add: session_ok_def keys_ok_def db_delete_user_def distinct_map_filter)


lemma session_ok_after_commit:
  assumes "session_ok db" and "db_commit e db = Inr db'"
  shows "session_ok db'" and "session_ok (begin_session (committed db'))"
  using session_ok_commit [OF assms] by (simp_all add: session_ok_restart)

lemma add_calculation_ok:
  assumes ok: "session_ok db"
  shows "session_ok (snd (add_calculation e cd u db))"
proof -
  have added: "session_ok (snd (db_add_calculation row db))" for row
    by (rule session_ok_add_calculation [OF ok])
  show ?thesis
    using ok session_ok_after_commit [OF added] session_ok_restart [OF added]
    by (auto simp add: add_calculation_def Let_def split_beta
        split: sum.splits calc_error.splits)
qed

lemma edit_calculation_ok:
  assumes ok: "session_ok db"
  shows "session_ok (snd (edit_calculation e cid upd u db))"
proof -
  have set2: "session_ok (db_set_calculation row2 (db_set_calculation row1 db))" for row1 row2
    by (intro session_ok_set_calculation ok)
  show ?thesis
    using ok session_ok_restart [OF ok] session_ok_after_commit [OF set2]
      session_ok_restart [OF set2]
    by (auto simp add: edit_calculation_def Let_def
        split: option.splits sum.splits calc_error.splits)
qed

lemma delete_calculation_ok:
  "session_ok db \<Longrightarrow> session_ok (snd (delete_calculation e cid u db))"
  by (auto simp add: delete_calculation_def Let_def
      intro: session_ok_delete_calculation session_ok_commit
      split: option.splits sum.splits)

lemma register_user_ok:
  "session_ok db \<Longrightarrow> session_ok (snd (register_user e ud db))"
  by (auto simp add: register_user_def Let_def split_beta
      intro: session_ok_add_user session_ok_commit
      split: option.splits sum.splits)

lemma update_user_ok:
  assumes ok: "session_ok db"
  shows "session_ok (snd (update_user e uid ud db))"
proof (cases "find (\<lambda>u. user_id u = uid) (users (working db))")
  case None
  with ok show ?thesis
    by (simp add: update_user_def)
next
  case (Some found)
  define user1 where "user1 = (if truthy (uu_username ud)
                               then found\<lparr>username := the (uu_username ud)\<rparr> else found)"
  define db1 where "db1 = db_set_user user1 db"
  define user3 where "user3 =
    (let user2 = (if truthy (uu_email ud) then user1\<lparr>email := the (uu_email ud)\<rparr> else user1)
     in if truthy (uu_password ud)
        then user2\<lparr>password_hash := hash_password (env_salt e) (the (uu_password ud))\<rparr>
        else user2)"
  define db2 where "db2 = db_set_user user3 db1"
  have ok1: "session_ok db1"
    unfolding db1_def by (rule session_ok_set_user [OF ok])
  have ok2: "session_ok db2"
    unfolding db2_def by (rule session_ok_set_user [OF ok1])
  have final: "session_ok (snd (case db_commit e db2 of
                   Inl failure \<Rightarrow> (Inl internal_server_error, db2)
                 | Inr db3 \<Rightarrow> (Inr user3, db3)))"
    using ok2 by (auto split: sum.splits intro: session_ok_commit)
  have "snd (update_user e uid ud db) = db \<or> snd (update_user e uid ud db) = db1 \<or>
        snd (update_user e uid ud db) =
          snd (case db_commit e db2 of
                 Inl failure \<Rightarrow> (Inl internal_server_error, db2)
               | Inr db3 \<Rightarrow> (Inr user3, db3))"
    unfolding update_user_def Let_def db2_def user3_def db1_def user1_def Let_def
    by (simp only: Some option.case split: if_split) simp
  with ok ok1 final show ?thesis
    by auto
qed

lemma delete_user_ok:
  "session_ok db \<Longrightarrow> session_ok (snd (delete_user e uid db))"
  by (auto simp add: delete_user_def Let_def
      intro: session_ok_delete_user session_ok_commit
      split: option.splits sum.splits)

lemma read_only_ok:
  "snd (login_user e ld db) = db"
  "snd (get_current_user_info u db) = db"
  "snd (get_users skip limit db) = db"
  "snd (get_user uid db) = db"
  "snd (browse_calculations skip limit u db) = db"
  "snd (read_calculation cid u db) = db"
  by (simp_all add: login_user_def get_current_user_info_def get_users_def get_user_def
      browse_calculations_def read_calculation_def Let_def split: option.splits)

lemma snd_respond [simp]: "snd (respond code render outcome) = snd outcome"
  by (simp add: respond_def split: sum.splits)

lemma authenticated_ok:
  assumes "session_ok db" and "\<And>u. session_ok (snd (handler u))"
  shows "session_ok (snd (authenticated e header db handler))"
  using assms by (simp add: authenticated_def split: sum.splits)

lemma dispatch_ok:
  assumes "session_ok db"
  shows "session_ok (snd (dispatch e header ep db))"
  using assms
  by (cases ep)
    (simp_all add: read_only_ok add_calculation_ok edit_calculation_ok delete_calculation_ok
      register_user_ok update_user_ok delete_user_ok authenticated_ok
      edit_calculation_patch_def)

lemma serve_keeps_keys:
  assumes "keys_ok d"
  shows "keys_ok (snd (serve e header ep d))"
  using dispatch_ok [OF session_ok_begin [OF assms], of e header ep]
  by (simp add: serve_def Let_def session_ok_def)

section \<open>Division by zero\<close>

text \<open>
  C1. A division fails with the division-by-zero error exactly when the second operand
  is zero. Creating such a calculation is refused with status 400 and the store is left
  as it was; with a non-zero second operand (and a store that accepts the commit and
  answers the reload) the create succeeds, the new record carries the quotient, and it is the one record added.
\<close>

theorem divide_fails_iff_zero:
  "(calculate x y ''divide'' = Inl DivisionByZeroError \<longleftrightarrow> y = 0) \<and>
   (y \<noteq> 0 \<longrightarrow> calculate x y ''divide'' = Inr (x / y)) \<and>
   (y = 0 \<longrightarrow>
      request (add_calculation e \<lparr>cc_a = x, cc_b = y, cc_type = ''divide''\<rparr> u) d =
        (Inl (HTTPException 400 ''Division by zero is not allowed''), d)) \<and>
   (y \<noteq> 0 \<and> commit_ok e \<and> refresh_ok e \<longrightarrow>
      request (add_calculation e \<lparr>cc_a = x, cc_b = y, cc_type = ''divide''\<rparr> u) d =
        (Inr \<lparr>calc_id = next_calc_id d, calc_user_id = user_id u, calc_a = x, calc_b = y,
              calc_type = ''divide'', calc_result = x / y, calc_created_at = env_now e\<rparr>,
         d\<lparr>calculations := calculations d @
              [\<lparr>calc_id = next_calc_id d, calc_user_id = user_id u, calc_a = x, calc_b = y,
                calc_type = ''divide'', calc_result = x / y, calc_created_at = env_now e\<rparr>],
            next_calc_id := next_calc_id d + 1\<rparr>))"
  by (simp add: calculate_divide request_def add_calculation_def begin_session_def
        db_add_calculation_def db_commit_def db_refresh_def Let_def)

theorem divide_fails_iff_zero_witness:
  "commit_ok env0 \<and> refresh_ok env0 \<and> (3::real) \<noteq> 0 \<and>
   request (add_calculation env0 \<lparr>cc_a = 10, cc_b = 0, cc_type = ''divide''\<rparr> alice) empty_db =
     (Inl (HTTPException 400 ''Division by zero is not allowed''), empty_db) \<and>
   fst (request (add_calculation env0 \<lparr>cc_a = 15, cc_b = 3, cc_type = ''divide''\<rparr> alice)
          empty_db) =
     Inr \<lparr>calc_id = 1, calc_user_id = 1, calc_a = 15, calc_b = 3,
          calc_type = ''divide'', calc_result = 5, calc_created_at = 1000\<rparr>"
  using divide_fails_iff_zero [of 10 0 env0 alice empty_db]
        divide_fails_iff_zero [of 15 3 env0 alice empty_db]
  by (simp add: env0_def alice_def empty_db_def)

section \<open>Token round trip\<close>




section \<open>PATCH and PUT\<close>

text \<open>
  C10. The PATCH handler is the PUT handler: on every identifier, payload, bearer token
  and store, the two routes give the same response and leave the same store.
\<close>

theorem patch_equals_put:
  "edit_calculation_patch e calculation_id calculation_data current_user db =
     edit_calculation e calculation_id calculation_data current_user db \<and>
   serve e header (EditCalculationPatch calculation_id calculation_data) d =
     serve e header (EditCalculation calculation_id calculation_data) d"
  by (simp add: edit_calculation_patch_def serve_def)

section \<open>Ownership of calculations\<close>

text \<open>A record of another owner is, for the query of every handler, not there.\<close>

lemma query_other_owner:
  assumes ids: "distinct (map calc_id (calculations d))"
    and mem: "c \<in> set (calculations d)"
    and other: "calc_user_id c \<noteq> user_id b"
  shows "query_calculation (calc_id c) b (begin_session d) = None"
proof (rule ccontr)
  assume "query_calculation (calc_id c) b (begin_session d) \<noteq> None"
  then obtain c' where q: "query_calculation (calc_id c) b (begin_session d) = Some c'"
    by auto
  from query_calculation_Some [OF q]
  have c': "c' \<in> set (calculations d)" "calc_id c' = calc_id c" "calc_user_id c' = user_id b"
    by simp_all
  from ids have "inj_on calc_id (set (calculations d))"
    by (simp add: distinct_map)
  with mem c' have "c' = c"
    by (auto dest: inj_onD)
  with c' other show False by simp
qed

lemma query_missing:
  assumes "cid \<notin> calc_id ` set (calculations d)"
  shows "query_calculation cid b (begin_session d) = None"
  using assms unfolding query_calculation_def by (auto simp add: find_None_iff)

lemma not_found_outcomes:
  assumes "query_calculation cid b (begin_session d) = None"
  shows "request (read_calculation cid b) d = (Inl calculation_not_found, d)"
    and "request (edit_calculation e cid upd b) d = (Inl calculation_not_found, d)"
    and "request (edit_calculation_patch e cid upd b) d = (Inl calculation_not_found, d)"
    and "request (delete_calculation e cid b) d = (Inl calculation_not_found, d)"
  using assms
  by (simp_all add: request_def read_calculation_def edit_calculation_def
      edit_calculation_patch_def delete_calculation_def)

lemma browse_owned:
  assumes "fst (request (browse_calculations skip limit b) d) = Inr rows" and "c \<in> set rows"
  shows "c \<in> set (calculations d) \<and> calc_user_id c = user_id b"
proof -
  from assms(1) have rows: "rows = take (nat (min limit 1000)) (drop (nat skip)
                    (sort_key (\<lambda>c. - calc_created_at c)
                       (filter (\<lambda>c. calc_user_id c = user_id b) (calculations d))))"
    by (simp add: request_def browse_calculations_def Let_def)
  from assms(2) have "c \<in> set (sort_key (\<lambda>c. - calc_created_at c)
                       (filter (\<lambda>c. calc_user_id c = user_id b) (calculations d)))"
    unfolding rows by (blast dest: in_set_takeD in_set_dropD)
  then show ?thesis by simp
qed

lemma add_calculation_owner:
  assumes "fst (request (add_calculation e cd b) d) = Inr row"
  shows "calc_user_id row = user_id b"
  using assms
  by (auto simp add: request_def add_calculation_def Let_def db_add_calculation_def
      db_commit_def db_refresh_def split: sum.splits calc_error.splits if_splits)

text \<open>
  C3. Take a stored calculation \<open>c\<close> and a resolved user \<open>b\<close> who is not its owner
  (identifiers are the primary key, so no two stored calculations share one). Then get,
  update (PUT and PATCH) and delete by \<open>b\<close> on the identifier of \<open>c\<close> all fail with
  status 404 and leave the store as it was, exactly as they do on an identifier that is
  stored nowhere; no page of the list of \<open>b\<close> holds \<open>c\<close>; and a create by \<open>b\<close> does
  not return it.
\<close>

theorem calculation_isolation:
  assumes ids: "distinct (map calc_id (calculations d))"
    and mem: "c \<in> set (calculations d)"
    and other: "calc_user_id c \<noteq> user_id b"
  shows "request (read_calculation (calc_id c) b) d = (Inl calculation_not_found, d) \<and>
         request (edit_calculation e (calc_id c) upd b) d = (Inl calculation_not_found, d) \<and>
         request (edit_calculation_patch e (calc_id c) upd b) d =
           (Inl calculation_not_found, d) \<and>
         request (delete_calculation e (calc_id c) b) d = (Inl calculation_not_found, d) \<and>
         (fst (request (browse_calculations skip limit b) d) = Inr rows \<longrightarrow> c \<notin> set rows) \<and>
         fst (request (add_calculation e cd b) d) \<noteq> Inr c \<and>
         (missing \<notin> calc_id ` set (calculations d) \<longrightarrow>
            request (read_calculation missing b) d = (Inl calculation_not_found, d) \<and>
            request (edit_calculation e missing upd b) d = (Inl calculation_not_found, d) \<and>
            request (delete_calculation e missing b) d = (Inl calculation_not_found, d)) \<and>
         calculation_not_found = HTTPException 404 ''Calculation not found''"
proof -
  note q = query_other_owner [OF ids mem other]
  have browse: "fst (request (browse_calculations skip limit b) d) = Inr rows \<longrightarrow> c \<notin> set rows"
    using browse_owned [of skip limit b d rows c] other by blast
  have add: "fst (request (add_calculation e cd b) d) \<noteq> Inr c"
    using add_calculation_owner [of e cd b d c] other by blast
  have missing: "missing \<notin> calc_id ` set (calculations d) \<longrightarrow>
            request (read_calculation missing b) d = (Inl calculation_not_found, d) \<and>
            request (edit_calculation e missing upd b) d = (Inl calculation_not_found, d) \<and>
            request (delete_calculation e missing b) d = (Inl calculation_not_found, d)"
    using not_found_outcomes [OF query_missing] by blast
  show ?thesis
    using not_found_outcomes [OF q] browse add missing
    by (simp add: calculation_not_found_def)
qed

theorem calculation_isolation_witness:
  "distinct (map calc_id (calculations two_users_db)) \<and>
   ten_plus_five \<in> set (calculations two_users_db) \<and>
   calc_user_id ten_plus_five \<noteq> user_id bob \<and>
   request (read_calculation 1 bob) two_users_db =
     (Inl (HTTPException 404 ''Calculation not found''), two_users_db) \<and>
   request (delete_calculation env0 1 bob) two_users_db =
     (Inl (HTTPException 404 ''Calculation not found''), two_users_db) \<and>
   request (read_calculation 7 bob) two_users_db =
     (Inl (HTTPException 404 ''Calculation not found''), two_users_db) \<and>
   fst (request (browse_calculations 0 100 bob) two_users_db) = Inr [] \<and>
   fst (request (read_calculation 1 alice) two_users_db) = Inr ten_plus_five"
proof -
  have ids: "distinct (map calc_id (calculations two_users_db))"
    by (simp add: two_users_db_def)
  have mem: "ten_plus_five \<in> set (calculations two_users_db)"
    by (simp add: two_users_db_def)
  have other: "calc_user_id ten_plus_five \<noteq> user_id bob"
    by (simp add: ten_plus_five_def bob_def)
  have id1: "calc_id ten_plus_five = 1"
    by (simp add: ten_plus_five_def)
  have missing: "7 \<notin> calc_id ` set (calculations two_users_db)"
    by (simp add: two_users_db_def ten_plus_five_def)
  have browse: "fst (request (browse_calculations 0 100 bob) two_users_db) = Inr []"
    by (simp add: request_def browse_calculations_def two_users_db_def ten_plus_five_def
        bob_def Let_def)
  have own: "fst (request (read_calculation 1 alice) two_users_db) = Inr ten_plus_five"
    by (simp add: request_def read_calculation_def query_calculation_def two_users_db_def
        ten_plus_five_def alice_def)
  show ?thesis
    using calculation_isolation [OF ids mem other, of env0 _ 0 100 "[]" _ 7]
      ids mem other missing browse own
    by (simp add: id1 calculation_not_found_def)
qed

section \<open>Updating a calculation\<close>

lemma edit_calculation_success:
  assumes found: "query_calculation cid u (begin_session d) = Some c"
    and upd: "updated upd"
    and calc: "calculate (calc_a (apply_update upd c)) (calc_b (apply_update upd c))
                 (calc_type (apply_update upd c)) = Inr r"
    and ok: "commit_ok e" "refresh_ok e"
  shows "request (edit_calculation e cid upd u) d =
           (Inr ((apply_update upd c)\<lparr>calc_result := r\<rparr>),
            d\<lparr>calculations :=
                 map (\<lambda>row. if calc_id row = cid then (apply_update upd c)\<lparr>calc_result := r\<rparr>
                            else row) (calculations d)\<rparr>)"
proof -
  have cid: "calc_id c = cid"
    using query_calculation_Some [OF found] by simp
  show ?thesis
    using found upd calc ok cid
    by (simp add: request_def edit_calculation_def Let_def db_commit_def db_refresh_def
        set_twice apply_update_fields db_set_calculation_def)
qed

lemma edit_calculation_noop:
  assumes found: "query_calculation cid u (begin_session d) = Some c"
    and upd: "\<not> updated upd"
  shows "request (edit_calculation e cid upd u) d = (Inr c, d)"
  using assms by (simp add: request_def edit_calculation_def Let_def)

text \<open>
  C5. Let the caller own the stored record \<open>c\<close> under the identifier. An update that
  supplies no field returns \<open>c\<close> as stored and leaves the store as it was. An update
  that supplies a field (with a store that accepts the commit and answers the reload)
  takes each of \<open>a\<close>,
  \<open>b\<close> and the type from the request where supplied and from \<open>c\<close> otherwise, keeps
  identifier, owner and creation time, sets the result to the value computed from the
  new triple, returns that record and stores it in place of \<open>c\<close>. PATCH does the same
  as PUT.
\<close>

theorem update_recomputes:
  assumes found: "query_calculation cid u (begin_session d) = Some c"
  shows "(\<not> updated upd \<longrightarrow>
            request (edit_calculation e cid upd u) d = (Inr c, d) \<and>
            request (edit_calculation_patch e cid upd u) d = (Inr c, d)) \<and>
         (updated upd \<and> commit_ok e \<and> refresh_ok e \<and>
          calculate (calc_a (apply_update upd c)) (calc_b (apply_update upd c))
            (calc_type (apply_update upd c)) = Inr r \<longrightarrow>
            request (edit_calculation e cid upd u) d =
              (Inr ((apply_update upd c)\<lparr>calc_result := r\<rparr>),
               d\<lparr>calculations :=
                    map (\<lambda>row. if calc_id row = cid
                               then (apply_update upd c)\<lparr>calc_result := r\<rparr> else row)
                      (calculations d)\<rparr>) \<and>
            request (edit_calculation_patch e cid upd u) d =
              request (edit_calculation e cid upd u) d) \<and>
         calc_a (apply_update upd c) = (case cu_a upd of Some v \<Rightarrow> v | None \<Rightarrow> calc_a c) \<and>
         calc_b (apply_update upd c) = (case cu_b upd of Some v \<Rightarrow> v | None \<Rightarrow> calc_b c) \<and>
         calc_type (apply_update upd c) =
           (case cu_type upd of Some v \<Rightarrow> v | None \<Rightarrow> calc_type c) \<and>
         calc_id (apply_update upd c) = calc_id c \<and>
         calc_user_id (apply_update upd c) = calc_user_id c \<and>
         calc_created_at (apply_update upd c) = calc_created_at c"
proof -
  have patch: "edit_calculation_patch e cid upd u = edit_calculation e cid upd u"
    by (rule ext) (simp add: edit_calculation_patch_def)
  show ?thesis
    unfolding patch
    using edit_calculation_noop [OF found, of upd e]
      edit_calculation_success [OF found, of upd r e]
    by (simp add: apply_update_fields)
qed

text \<open>
  The scenario of the specification: after the create of \<open>10 + 5\<close>, a PATCH that
  supplies only \<open>b = 8\<close> gives the result 18, with \<open>a\<close> still 10 and the type still
  \<open>add\<close>.
\<close>

theorem update_recomputes_witness:
  "query_calculation 1 alice (begin_session after_create) = Some ten_plus_five \<and>
   updated \<lparr>cu_a = None, cu_b = Some 8, cu_type = None\<rparr> \<and> commit_ok env0 \<and>
   refresh_ok env0 \<and>
   fst (request (edit_calculation_patch env0 1 \<lparr>cu_a = None, cu_b = Some 8, cu_type = None\<rparr>
                   alice) after_create) =
     Inr \<lparr>calc_id = 1, calc_user_id = 1, calc_a = 10, calc_b = 8, calc_type = ''add'',
          calc_result = 18, calc_created_at = 1000\<rparr>"
proof -
  have found: "query_calculation 1 alice (begin_session after_create) = Some ten_plus_five"
    by (simp add: after_create_eq query_calculation_def empty_db_def ten_plus_five_def
        alice_def)
  have upd: "apply_update \<lparr>cu_a = None, cu_b = Some 8, cu_type = None\<rparr> ten_plus_five =
      \<lparr>calc_id = 1, calc_user_id = 1, calc_a = 10, calc_b = 8, calc_type = ''add'',
       calc_result = 15, calc_created_at = 1000\<rparr>"
    by (simp add: apply_update_def ten_plus_five_def)
  show ?thesis
    using found
      update_recomputes [OF found, of "\<lparr>cu_a = None, cu_b = Some 8, cu_type = None\<rparr>" env0 18]
    by (simp add: upd updated_def calculate_def env0_def)
qed

section \<open>Failed writes\<close>

lemma edit_calculation_failure:
  assumes "fst (edit_calculation e cid upd u (begin_session d)) = Inl err"
    and "refresh_ok e \<or> \<not> commit_ok e"
  shows "snd (edit_calculation e cid upd u (begin_session d)) = begin_session d"
  using assms
  by (auto simp add: edit_calculation_def Let_def db_commit_def db_refresh_def
      split: option.splits sum.splits calc_error.splits if_splits)

lemma add_calculation_failure:
  assumes "fst (add_calculation e cd u (begin_session d)) = Inl err"
    and "refresh_ok e \<or> \<not> commit_ok e"
  shows "snd (add_calculation e cd u (begin_session d)) = begin_session d"
  using assms
  by (auto simp add: add_calculation_def Let_def db_commit_def db_refresh_def split_beta
      split: option.splits sum.splits calc_error.splits if_splits)

lemma edit_calculation_refresh_failure:
  assumes found: "query_calculation cid u (begin_session d) = Some c"
    and upd: "updated upd"
    and calc: "calculate (calc_a (apply_update upd c)) (calc_b (apply_update upd c))
                 (calc_type (apply_update upd c)) = Inr r"
    and ok: "commit_ok e" and no: "\<not> refresh_ok e"
  shows "request (edit_calculation e cid upd u) d =
           (Inl (HTTPException 500 ''Internal server error while updating calculation''),
            d\<lparr>calculations :=
                 map (\<lambda>row. if calc_id row = cid then (apply_update upd c)\<lparr>calc_result := r\<rparr>
                            else row) (calculations d)\<rparr>)"
proof -
  have cid: "calc_id c = cid"
    using query_calculation_Some [OF found] by simp
  show ?thesis
    using found upd calc ok no cid
    by (simp add: request_def edit_calculation_def Let_def db_commit_def db_refresh_def
        set_twice apply_update_fields db_set_calculation_def db_rollback_def)
qed

lemma add_calculation_refresh_failure:
  assumes calc: "calculate (cc_a cd) (cc_b cd) (cc_type cd) = Inr r"
    and ok: "commit_ok e" and no: "\<not> refresh_ok e"
  shows "request (add_calculation e cd u) d =
           (Inl (HTTPException 500 ''Internal server error while creating calculation''),
            d\<lparr>calculations := calculations d @
                 [\<lparr>calc_id = next_calc_id d, calc_user_id = user_id u, calc_a = cc_a cd,
                   calc_b = cc_b cd, calc_type = cc_type cd, calc_result = r,
                   calc_created_at = env_now e\<rparr>],
               next_calc_id := next_calc_id d + 1\<rparr>)"
  using assms
  by (simp add: request_def add_calculation_def Let_def db_commit_def db_refresh_def
      db_add_calculation_def db_rollback_def)

lemma edit_calculation_old_or_complete:
  assumes "fst (request (edit_calculation e cid upd u) d) = Inl err"
  shows "snd (request (edit_calculation e cid upd u) d) = d \<or>
         (\<exists>c r. query_calculation cid u (begin_session d) = Some c \<and>
            calculate (calc_a (apply_update upd c)) (calc_b (apply_update upd c))
              (calc_type (apply_update upd c)) = Inr r \<and>
            snd (request (edit_calculation e cid upd u) d) =
              d\<lparr>calculations :=
                   map (\<lambda>row. if calc_id row = cid
                              then (apply_update upd c)\<lparr>calc_result := r\<rparr> else row)
                     (calculations d)\<rparr>)"
proof (cases "refresh_ok e \<or> \<not> commit_ok e")
  case True
  from assms have "fst (edit_calculation e cid upd u (begin_session d)) = Inl err"
    by (simp add: request_def Let_def)
  from edit_calculation_failure [OF this True]
  have "snd (request (edit_calculation e cid upd u) d) = d"
    by (simp add: request_def Let_def)
  then show ?thesis ..
next
  case False
  then have ok: "commit_ok e" and no: "\<not> refresh_ok e"
    by simp_all
  show ?thesis
  proof (cases "query_calculation cid u (begin_session d)")
    case None
    then show ?thesis
      by (simp add: request_def edit_calculation_def)
  next
    case (Some c)
    note found = Some
    show ?thesis
    proof (cases "updated upd")
      case False
      with found show ?thesis
        by (simp add: request_def edit_calculation_def)
    next
      case True
      note upd = True
      show ?thesis
      proof (cases "calculate (calc_a (apply_update upd c)) (calc_b (apply_update upd c))
                      (calc_type (apply_update upd c))")
        case (Inl failure)
        with found upd show ?thesis
          by (cases failure) (simp_all add: request_def edit_calculation_def Let_def)
      next
        case (Inr r)
        from edit_calculation_refresh_failure [OF found upd Inr ok no] found Inr
        show ?thesis
          by simp
      qed
    qed
  qed
qed

text \<open>
  C6, as the program has it. An update whose recomputation fails (division by zero,
  invalid operation) ends with status 400, and an update or create whose commit raises
  ends with status 500; whenever an update or a create ends in an error that is not
  raised after a successful commit, the session it leaves is rolled back to the store
  and the store is what it was before the request. An error raised after the commit (by
  the reload of the row) also ends with status 500, but the write is already stored: the
  updated record with its recomputed result, or the new record. After a failed update
  the stored record is therefore either the old one or the completely updated one, never
  new operands with the old result.
\<close>

theorem failed_write_leaves_store:
  "(fst (edit_calculation e cid upd u (begin_session d)) = Inl err \<and>
    (refresh_ok e \<or> \<not> commit_ok e) \<longrightarrow>
      snd (edit_calculation e cid upd u (begin_session d)) = begin_session d \<and>
      snd (request (edit_calculation e cid upd u) d) = d) \<and>
   (fst (add_calculation e cd u (begin_session d)) = Inl err \<and>
    (refresh_ok e \<or> \<not> commit_ok e) \<longrightarrow>
      snd (add_calculation e cd u (begin_session d)) = begin_session d \<and>
      snd (request (add_calculation e cd u) d) = d) \<and>
   (query_calculation cid u (begin_session d) = Some c \<and> updated upd \<and>
    calculate (calc_a (apply_update upd c)) (calc_b (apply_update upd c))
      (calc_type (apply_update upd c)) = Inl failure \<longrightarrow>
      (\<exists>detail. request (edit_calculation e cid upd u) d =
         (Inl (HTTPException 400 detail), d))) \<and>
   (query_calculation cid u (begin_session d) = Some c \<and> updated upd \<and>
    calculate (calc_a (apply_update upd c)) (calc_b (apply_update upd c))
      (calc_type (apply_update upd c)) = Inr r \<and> \<not> commit_ok e \<longrightarrow>
      request (edit_calculation e cid upd u) d =
        (Inl (HTTPException 500 ''Internal server error while updating calculation''), d)) \<and>
   (calculate (cc_a cd) (cc_b cd) (cc_type cd) = Inr r \<and> \<not> commit_ok e \<longrightarrow>
      request (add_calculation e cd u) d =
        (Inl (HTTPException 500 ''Internal server error while creating calculation''), d)) \<and>
   (query_calculation cid u (begin_session d) = Some c \<and> updated upd \<and>
    calculate (calc_a (apply_update upd c)) (calc_b (apply_update upd c))
      (calc_type (apply_update upd c)) = Inr r \<and> commit_ok e \<and> \<not> refresh_ok e \<longrightarrow>
      request (edit_calculation e cid upd u) d =
        (Inl (HTTPException 500 ''Internal server error while updating calculation''),
         d\<lparr>calculations :=
              map (\<lambda>row. if calc_id row = cid then (apply_update upd c)\<lparr>calc_result := r\<rparr>
                         else row) (calculations d)\<rparr>)) \<and>
   (calculate (cc_a cd) (cc_b cd) (cc_type cd) = Inr r \<and> commit_ok e \<and> \<not> refresh_ok e \<longrightarrow>
      request (add_calculation e cd u) d =
        (Inl (HTTPException 500 ''Internal server error while creating calculation''),
         d\<lparr>calculations := calculations d @
              [\<lparr>calc_id = next_calc_id d, calc_user_id = user_id u, calc_a = cc_a cd,
                calc_b = cc_b cd, calc_type = cc_type cd, calc_result = r,
                calc_created_at = env_now e\<rparr>],
            next_calc_id := next_calc_id d + 1\<rparr>)) \<and>
   (fst (request (edit_calculation e cid upd u) d) = Inl err \<longrightarrow>
      snd (request (edit_calculation e cid upd u) d) = d \<or>
      (\<exists>row result. query_calculation cid u (begin_session d) = Some row \<and>
         calculate (calc_a (apply_update upd row)) (calc_b (apply_update upd row))
           (calc_type (apply_update upd row)) = Inr result \<and>
         snd (request (edit_calculation e cid upd u) d) =
           d\<lparr>calculations :=
                map (\<lambda>x. if calc_id x = cid
                         then (apply_update upd row)\<lparr>calc_result := result\<rparr> else x)
                  (calculations d)\<rparr>))"
proof (intro conjI impI)
  assume a: "fst (edit_calculation e cid upd u (begin_session d)) = Inl err \<and>
    (refresh_ok e \<or> \<not> commit_ok e)"
  then show "snd (edit_calculation e cid upd u (begin_session d)) = begin_session d"
    by (intro edit_calculation_failure) simp_all
  then show "snd (request (edit_calculation e cid upd u) d) = d"
    by (simp add: request_def Let_def)
next
  assume a: "fst (add_calculation e cd u (begin_session d)) = Inl err \<and>
    (refresh_ok e \<or> \<not> commit_ok e)"
  then show "snd (add_calculation e cd u (begin_session d)) = begin_session d"
    by (intro add_calculation_failure) simp_all
  then show "snd (request (add_calculation e cd u) d) = d"
    by (simp add: request_def Let_def)
next
  assume "query_calculation cid u (begin_session d) = Some c \<and> updated upd \<and>
    calculate (calc_a (apply_update upd c)) (calc_b (apply_update upd c))
      (calc_type (apply_update upd c)) = Inl failure"
  then show "\<exists>detail. request (edit_calculation e cid upd u) d =
      (Inl (HTTPException 400 detail), d)"
    by (cases failure) (simp_all add: request_def edit_calculation_def Let_def)
next
  assume "query_calculation cid u (begin_session d) = Some c \<and> updated upd \<and>
    calculate (calc_a (apply_update upd c)) (calc_b (apply_update upd c))
      (calc_type (apply_update upd c)) = Inr r \<and> \<not> commit_ok e"
  then show "request (edit_calculation e cid upd u) d =
        (Inl (HTTPException 500 ''Internal server error while updating calculation''), d)"
    by (simp add: request_def edit_calculation_def Let_def db_commit_def)
next
  assume "calculate (cc_a cd) (cc_b cd) (cc_type cd) = Inr r \<and> \<not> commit_ok e"
  then show "request (add_calculation e cd u) d =
        (Inl (HTTPException 500 ''Internal server error while creating calculation''), d)"
    by (simp add: request_def add_calculation_def Let_def db_commit_def split_beta)
next
  assume "query_calculation cid u (begin_session d) = Some c \<and> updated upd \<and>
    calculate (calc_a (apply_update upd c)) (calc_b (apply_update upd c))
      (calc_type (apply_update upd c)) = Inr r \<and> commit_ok e \<and> \<not> refresh_ok e"
  then show "request (edit_calculation e cid upd u) d =
        (Inl (HTTPException 500 ''Internal server error while updating calculation''),
         d\<lparr>calculations :=
              map (\<lambda>row. if calc_id row = cid then (apply_update upd c)\<lparr>calc_result := r\<rparr>
                         else row) (calculations d)\<rparr>)"
    by (intro edit_calculation_refresh_failure) simp_all
next
  assume "calculate (cc_a cd) (cc_b cd) (cc_type cd) = Inr r \<and> commit_ok e \<and> \<not> refresh_ok e"
  then show "request (add_calculation e cd u) d =
        (Inl (HTTPException 500 ''Internal server error while creating calculation''),
         d\<lparr>calculations := calculations d @
              [\<lparr>calc_id = next_calc_id d, calc_user_id = user_id u, calc_a = cc_a cd,
                calc_b = cc_b cd, calc_type = cc_type cd, calc_result = r,
                calc_created_at = env_now e\<rparr>],
            next_calc_id := next_calc_id d + 1\<rparr>)"
    by (intro add_calculation_refresh_failure) simp_all
next
  assume "fst (request (edit_calculation e cid upd u) d) = Inl err"
  then show "snd (request (edit_calculation e cid upd u) d) = d \<or>
      (\<exists>row result. query_calculation cid u (begin_session d) = Some row \<and>
         calculate (calc_a (apply_update upd row)) (calc_b (apply_update upd row))
           (calc_type (apply_update upd row)) = Inr result \<and>
         snd (request (edit_calculation e cid upd u) d) =
           d\<lparr>calculations :=
                map (\<lambda>x. if calc_id x = cid
                         then (apply_update upd row)\<lparr>calc_result := result\<rparr> else x)
                  (calculations d)\<rparr>)"
    by (rule edit_calculation_old_or_complete)
qed

lemma found_ten_plus_five:
  "query_calculation 1 alice (begin_session two_users_db) = Some ten_plus_five"
  by (simp add: query_calculation_def two_users_db_def ten_plus_five_def alice_def)

lemma b_to_eight_facts:
  "updated b_to_eight"
  "calculate (calc_a (apply_update b_to_eight ten_plus_five))
     (calc_b (apply_update b_to_eight ten_plus_five))
     (calc_type (apply_update b_to_eight ten_plus_five)) = Inr 18"
  "(apply_update b_to_eight ten_plus_five)\<lparr>calc_result := 18\<rparr> = ten_plus_eight"
  by (simp_all add: updated_def b_to_eight_def apply_update_def calculate_def
      ten_plus_five_def ten_plus_eight_def)

lemma replaced_by_ten_plus_eight:
  "two_users_db\<lparr>calculations :=
      map (\<lambda>row. if calc_id row = 1 then ten_plus_eight else row)
        (calculations two_users_db)\<rparr> =
   two_users_db\<lparr>calculations := [ten_plus_eight]\<rparr>"
  by (simp add: two_users_db_def ten_plus_five_def)

theorem failed_write_leaves_store_witness:
  "refresh_ok env0 \<and>
   query_calculation 1 alice (begin_session two_users_db) = Some ten_plus_five \<and>
   updated divide_by_zero \<and>
   calculate (calc_a (apply_update divide_by_zero ten_plus_five))
     (calc_b (apply_update divide_by_zero ten_plus_five))
     (calc_type (apply_update divide_by_zero ten_plus_five)) = Inl DivisionByZeroError \<and>
   request (edit_calculation env0 1 divide_by_zero alice) two_users_db =
     (Inl (HTTPException 400 ''Division by zero is not allowed''), two_users_db) \<and>
   updated b_to_eight \<and> \<not> commit_ok commit_fails \<and>
   request (edit_calculation commit_fails 1 b_to_eight alice) two_users_db =
     (Inl (HTTPException 500 ''Internal server error while updating calculation''),
      two_users_db) \<and>
   request (add_calculation commit_fails \<lparr>cc_a = 1, cc_b = 2, cc_type = ''add''\<rparr> alice)
       two_users_db =
     (Inl (HTTPException 500 ''Internal server error while creating calculation''),
      two_users_db) \<and>
   commit_ok reload_fails \<and> \<not> refresh_ok reload_fails \<and>
   request (edit_calculation reload_fails 1 b_to_eight alice) two_users_db =
     (Inl (HTTPException 500 ''Internal server error while updating calculation''),
      two_users_db\<lparr>calculations := [ten_plus_eight]\<rparr>)"
proof -
  note found = found_ten_plus_five
  have upd: "updated divide_by_zero"
    by (simp add: updated_def divide_by_zero_def)
  have fails: "calculate (calc_a (apply_update divide_by_zero ten_plus_five))
     (calc_b (apply_update divide_by_zero ten_plus_five))
     (calc_type (apply_update divide_by_zero ten_plus_five)) = Inl DivisionByZeroError"
    by (simp add: apply_update_fields divide_by_zero_def calculate_def)
  have first: "fst (edit_calculation env0 1 divide_by_zero alice (begin_session two_users_db)) =
      Inl (HTTPException 400 ''Division by zero is not allowed'')"
    using found upd fails by (simp add: edit_calculation_def Let_def)
  have ok2: "calculate (cc_a \<lparr>cc_a = 1, cc_b = 2, cc_type = ''add''\<rparr>)
      (cc_b \<lparr>cc_a = 1, cc_b = 2, cc_type = ''add''\<rparr>)
      (cc_type \<lparr>cc_a = 1, cc_b = 2, cc_type = ''add''\<rparr>) = Inr 3"
    by (simp add: calculate_def)
  have flags: "refresh_ok env0" "\<not> commit_ok commit_fails" "commit_ok reload_fails"
    "\<not> refresh_ok reload_fails"
    by (simp_all add: env0_def commit_fails_def reload_fails_def)
  from failed_write_leaves_store [where e = env0 and cid = 1 and upd = divide_by_zero
      and u = alice and d = two_users_db
      and err = "HTTPException 400 ''Division by zero is not allowed''"]
    first flags(1)
  have a: "snd (request (edit_calculation env0 1 divide_by_zero alice) two_users_db) =
      two_users_db"
    by blast
  have a': "fst (request (edit_calculation env0 1 divide_by_zero alice) two_users_db) =
      Inl (HTTPException 400 ''Division by zero is not allowed'')"
    using first by (simp add: request_def Let_def)
  from failed_write_leaves_store [where e = commit_fails and cid = 1 and upd = b_to_eight
      and u = alice and d = two_users_db and c = ten_plus_five and r = 18]
    found b_to_eight_facts(1,2) flags(2)
  have b: "request (edit_calculation commit_fails 1 b_to_eight alice) two_users_db =
     (Inl (HTTPException 500 ''Internal server error while updating calculation''),
      two_users_db)"
    by blast
  from failed_write_leaves_store [where e = commit_fails and u = alice and d = two_users_db
      and cd = "\<lparr>cc_a = 1, cc_b = 2, cc_type = ''add''\<rparr>" and r = 3]
    ok2 flags(2)
  have c: "request (add_calculation commit_fails \<lparr>cc_a = 1, cc_b = 2, cc_type = ''add''\<rparr>
              alice) two_users_db =
     (Inl (HTTPException 500 ''Internal server error while creating calculation''),
      two_users_db)"
    by blast
  from failed_write_leaves_store [where e = reload_fails and cid = 1 and upd = b_to_eight
      and u = alice and d = two_users_db and c = ten_plus_five and r = 18]
    found b_to_eight_facts(1,2) flags(3,4)
  have "request (edit_calculation reload_fails 1 b_to_eight alice) two_users_db =
     (Inl (HTTPException 500 ''Internal server error while updating calculation''),
      two_users_db\<lparr>calculations :=
         map (\<lambda>row. if calc_id row = 1
                    then (apply_update b_to_eight ten_plus_five)\<lparr>calc_result := 18\<rparr>
                    else row) (calculations two_users_db)\<rparr>)"
    by blast
  then have e: "request (edit_calculation reload_fails 1 b_to_eight alice) two_users_db =
     (Inl (HTTPException 500 ''Internal server error while updating calculation''),
      two_users_db\<lparr>calculations := [ten_plus_eight]\<rparr>)"
    by (simp only: b_to_eight_facts(3) replaced_by_ten_plus_eight)
  show ?thesis
    using found upd fails flags b_to_eight_facts(1) a a' b c e by (simp add: prod_eq_iff)
qed

text \<open>
  The claim as written fails where the reload after the commit raises: the update of
  \<open>b\<close> to 8 is answered with status 500, and the store holds the updated record.
\<close>

theorem failed_write_leaves_store_counterexample:
  "request (edit_calculation reload_fails 1 b_to_eight alice) two_users_db =
     (Inl (HTTPException 500 ''Internal server error while updating calculation''),
      two_users_db\<lparr>calculations := [ten_plus_eight]\<rparr>) \<and>
   two_users_db\<lparr>calculations := [ten_plus_eight]\<rparr> \<noteq> two_users_db"
proof -
  have flags: "commit_ok reload_fails" "\<not> refresh_ok reload_fails"
    by (simp_all add: env0_def reload_fails_def)
  have "request (edit_calculation reload_fails 1 b_to_eight alice) two_users_db =
     (Inl (HTTPException 500 ''Internal server error while updating calculation''),
      two_users_db\<lparr>calculations :=
         map (\<lambda>row. if calc_id row = 1
                    then (apply_update b_to_eight ten_plus_five)\<lparr>calc_result := 18\<rparr>
                    else row) (calculations two_users_db)\<rparr>)"
    by (rule edit_calculation_refresh_failure
        [OF found_ten_plus_five b_to_eight_facts(1,2) flags])
  then have "request (edit_calculation reload_fails 1 b_to_eight alice) two_users_db =
     (Inl (HTTPException 500 ''Internal server error while updating calculation''),
      two_users_db\<lparr>calculations := [ten_plus_eight]\<rparr>)"
    by (simp only: b_to_eight_facts(3) replaced_by_ten_plus_eight)
  moreover have "two_users_db\<lparr>calculations := [ten_plus_eight]\<rparr> \<noteq> two_users_db"
  proof
    assume "two_users_db\<lparr>calculations := [ten_plus_eight]\<rparr> = two_users_db"
    then have "calculations (two_users_db\<lparr>calculations := [ten_plus_eight]\<rparr>) =
        calculations two_users_db"
      by simp
    then show False
      by (simp add: two_users_db_def ten_plus_eight_def ten_plus_five_def)
  qed
  ultimately show ?thesis ..
qed

section \<open>Login\<close>

lemma token_for_eq:
  "token_for e u =
     Signed (secret_key e)
       [(''sub'', Str (username u)), (''exp'', Time (env_now e + 60 * access_token_expire_minutes e))]"
  by (simp add: token_for_def create_access_token_eq expiry_of_def)

lemma login_cases:
  "serve e header (Login login_data) d =
     (case login_match (ul_username login_data) d of
        None \<Rightarrow> (Inl (HTTPException 401 ''Invalid username or password''), d)
      | Some found \<Rightarrow>
          if \<not> verify_password (ul_password login_data) (password_hash found)
          then (Inl (HTTPException 401 ''Invalid username or password''), d)
          else if \<not> is_active found
          then (Inl (HTTPException 403 ''User account is inactive''), d)
          else (Inr (200, AuthBody \<lparr>ar_message = ''Login successful'',
                     ar_user = model_validate found,
                     ar_access_token = token_for e found,
                     ar_token_type = ''bearer''\<rparr>), d))"
  by (simp add: serve_def login_user_def login_match_def respond_def Let_def
      split: option.splits)

text \<open>
  C8. Login takes the first stored user whose username or whose email equals the given
  name. With no such user it fails with status 401; with one whose stored digest does not
  verify the password it fails with status 401, whatever the active flag; with one whose
  password verifies but who is inactive it fails with status 403; otherwise it answers
  200 with the projection of the user and a token issued now for that username. The
  store is never changed.
\<close>

theorem login_outcomes:
  "(login_match (ul_username login_data) d = None \<longleftrightarrow>
      \<not> (\<exists>x \<in> set (users d).
            username x = ul_username login_data \<or> email x = ul_username login_data)) \<and>
   (login_match (ul_username login_data) d = Some u \<longrightarrow>
      u \<in> set (users d) \<and>
      (username u = ul_username login_data \<or> email u = ul_username login_data)) \<and>
   (login_match (ul_username login_data) d = None \<longrightarrow>
      serve e header (Login login_data) d =
        (Inl (HTTPException 401 ''Invalid username or password''), d)) \<and>
   (login_match (ul_username login_data) d = Some u \<and>
    \<not> verify_password (ul_password login_data) (password_hash u) \<longrightarrow>
      serve e header (Login login_data) d =
        (Inl (HTTPException 401 ''Invalid username or password''), d)) \<and>
   (login_match (ul_username login_data) d = Some u \<and>
    verify_password (ul_password login_data) (password_hash u) \<and> \<not> is_active u \<longrightarrow>
      serve e header (Login login_data) d =
        (Inl (HTTPException 403 ''User account is inactive''), d)) \<and>
   (login_match (ul_username login_data) d = Some u \<and>
    verify_password (ul_password login_data) (password_hash u) \<and> is_active u \<longrightarrow>
      serve e header (Login login_data) d =
        (Inr (200, AuthBody \<lparr>ar_message = ''Login successful'',
                ar_user = model_validate u,
                ar_access_token =
                  create_access_token e [(''sub'', Str (username u))]
                    (Some (60 * access_token_expire_minutes e)),
                ar_token_type = ''bearer''\<rparr>), d))"
proof (intro conjI impI)
  show "login_match (ul_username login_data) d = None \<longleftrightarrow>
      \<not> (\<exists>x \<in> set (users d).
            username x = ul_username login_data \<or> email x = ul_username login_data)"
    by (auto simp add: login_match_def find_None_iff)
next
  assume "login_match (ul_username login_data) d = Some u"
  then show "u \<in> set (users d)"
    and "username u = ul_username login_data \<or> email u = ul_username login_data"
    by (auto simp add: login_match_def find_Some_iff)
next
  assume "login_match (ul_username login_data) d = None"
  then show "serve e header (Login login_data) d =
        (Inl (HTTPException 401 ''Invalid username or password''), d)"
    by (simp add: login_cases)
next
  assume "login_match (ul_username login_data) d = Some u \<and>
    \<not> verify_password (ul_password login_data) (password_hash u)"
  then show "serve e header (Login login_data) d =
        (Inl (HTTPException 401 ''Invalid username or password''), d)"
    by (simp add: login_cases)
next
  assume "login_match (ul_username login_data) d = Some u \<and>
    verify_password (ul_password login_data) (password_hash u) \<and> \<not> is_active u"
  then show "serve e header (Login login_data) d =
        (Inl (HTTPException 403 ''User account is inactive''), d)"
    by (simp add: login_cases)
next
  assume "login_match (ul_username login_data) d = Some u \<and>
    verify_password (ul_password login_data) (password_hash u) \<and> is_active u"
  then show "serve e header (Login login_data) d =
        (Inr (200, AuthBody \<lparr>ar_message = ''Login successful'',
                ar_user = model_validate u,
                ar_access_token =
                  create_access_token e [(''sub'', Str (username u))]
                    (Some (60 * access_token_expire_minutes e)),
                ar_token_type = ''bearer''\<rparr>), d)"
    by (simp add: login_cases token_for_def)
qed

theorem login_outcomes_witness:
  "login_match ''alice@x.com'' two_users_db = Some alice \<and>
   login_match ''bob'' two_users_db = Some bob \<and>
   login_match ''carol'' two_users_db = None \<and>
   verify_password ''password123'' (password_hash alice) \<and> is_active alice \<and>
   \<not> verify_password ''wrong'' (password_hash bob) \<and>
   verify_password ''hunter2hunter2'' (password_hash bob) \<and> \<not> is_active bob \<and>
   serve env0 None (Login \<lparr>ul_username = ''alice@x.com'', ul_password = ''password123''\<rparr>)
       two_users_db =
     (Inr (200, AuthBody \<lparr>ar_message = ''Login successful'', ar_user = model_validate alice,
             ar_access_token =
               Signed ''your-secret-key-change-this-in-production''
                 [(''sub'', Str ''alice''), (''exp'', Time 2800)],
             ar_token_type = ''bearer''\<rparr>), two_users_db) \<and>
   fst (serve env0 None (Login \<lparr>ul_username = ''bob'', ul_password = ''wrong''\<rparr>) two_users_db) =
     Inl (HTTPException 401 ''Invalid username or password'') \<and>
   fst (serve env0 None (Login \<lparr>ul_username = ''bob'', ul_password = ''hunter2hunter2''\<rparr>)
          two_users_db) =
     Inl (HTTPException 403 ''User account is inactive'') \<and>
   fst (serve env0 None (Login \<lparr>ul_username = ''carol'', ul_password = ''password123''\<rparr>)
          two_users_db) =
     Inl (HTTPException 401 ''Invalid username or password'')"
proof -
  have m1: "login_match ''alice@x.com'' two_users_db = Some alice"
    by (simp add: login_match_def two_users_db_def alice_def bob_def)
  have m2: "login_match ''bob'' two_users_db = Some bob"
    by (simp add: login_match_def two_users_db_def alice_def bob_def)
  have m3: "login_match ''carol'' two_users_db = None"
    by (simp add: login_match_def two_users_db_def alice_def bob_def)
  have p: "verify_password ''password123'' (password_hash alice)" "is_active alice"
    "\<not> verify_password ''wrong'' (password_hash bob)"
    "verify_password ''hunter2hunter2'' (password_hash bob)" "\<not> is_active bob"
    by (simp_all add: alice_def bob_def)
  have name: "username alice = ''alice''" by (simp add: alice_def)
  show ?thesis
    using m1 m2 m3 p
      login_outcomes [of "\<lparr>ul_username = ''alice@x.com'', ul_password = ''password123''\<rparr>"
        two_users_db alice env0 None]
      login_outcomes [of "\<lparr>ul_username = ''bob'', ul_password = ''wrong''\<rparr>"
        two_users_db bob env0 None]
      login_outcomes [of "\<lparr>ul_username = ''bob'', ul_password = ''hunter2hunter2''\<rparr>"
        two_users_db bob env0 None]
      login_outcomes [of "\<lparr>ul_username = ''carol'', ul_password = ''password123''\<rparr>"
        two_users_db _ env0 None]
    by (simp add: name env0_def create_access_token_eq expiry_of_def)
qed

section \<open>Identity resolution\<close>

lemma find_map_invariant:
  assumes "\<And>x. P (f x) = P x"
  shows "find P (map f xs) = map_option f (find P xs)"
  using assms by (induction xs) simp_all

lemma resolver_cases:
  "get_current_user_dependency e tok db =
     (case decode_access_token e tok of
        None \<Rightarrow> Inl credentials_exception
      | Some payload \<Rightarrow>
          (case map_of payload ''sub'' of
             None \<Rightarrow> Inl credentials_exception
           | Some subject \<Rightarrow>
               (case find (\<lambda>u. Str (username u) = subject) (users (working db)) of
                  None \<Rightarrow> Inl credentials_exception
                | Some found \<Rightarrow> Inr found)))"
  by (simp add: get_current_user_dependency_def)

lemma resolver_error:
  "get_current_user_dependency e tok db = Inl err \<Longrightarrow> err = credentials_exception"
  by (auto simp add: resolver_cases split: option.splits)

lemma resolver_fails_iff:
  "(\<exists>err. get_current_user_dependency e tok db = Inl err) \<longleftrightarrow>
     (decode_access_token e tok = None \<or>
      (\<exists>payload. decode_access_token e tok = Some payload \<and>
         (map_of payload ''sub'' = None \<or>
          (\<exists>subject. map_of payload ''sub'' = Some subject \<and>
             \<not> (\<exists>u \<in> set (users (working db)). Str (username u) = subject)))))"
proof -
  have found: "find P xs = Some x \<Longrightarrow> \<exists>y \<in> set xs. P y" for P :: "user \<Rightarrow> bool" and xs x
    by (auto simp add: find_Some_iff)
  show ?thesis
    by (auto simp add: resolver_cases find_None_iff split: option.splits dest: found)
qed

lemma resolver_ignores_active:
  assumes "get_current_user_dependency e tok db = Inr u"
  shows "get_current_user_dependency e tok (deactivate_all db) = Inr (u\<lparr>is_active := False\<rparr>)"
proof -
  have "find (\<lambda>u. Str (username u) = subject)
          (map (\<lambda>u. u\<lparr>is_active := False\<rparr>) (users (working db))) =
        map_option (\<lambda>u. u\<lparr>is_active := False\<rparr>)
          (find (\<lambda>u. Str (username u) = subject) (users (working db)))" for subject
    by (rule find_map_invariant) simp
  then show ?thesis
    using assms
    by (auto simp add: resolver_cases deactivate_all_def split: option.splits)
qed

lemma protected_without_token:
  assumes "protected ep"
  shows "serve e None ep d = (Inl (HTTPException 403 ''Not authenticated''), d)"
  using assms
  by (cases ep) (simp_all add: serve_def authenticated_def security_def Let_def)

lemma authenticated_resolved:
  assumes "get_current_user_dependency e tok db = Inr u"
  shows "authenticated e (Some tok) db handler = handler u"
  using assms by (simp add: authenticated_def security_def)

lemma authenticated_rejected:
  assumes "get_current_user_dependency e tok db = Inl err"
  shows "authenticated e (Some tok) db handler = (Inl credentials_exception, db)"
  using assms resolver_error [OF assms] by (simp add: authenticated_def security_def)

text \<open>
  C4, as the program has it. For a request that presents a bearer token, the resolver
  fails exactly when the token does not validate (malformed, signed with another key,
  expired), carries no subject, or its subject is the username of no stored user; every
  such failure is status 401 and the handler is not run. A request with no token does not
  reach the resolver: the bearer scheme answers a protected route with status 403. The
  resolver never reads the active flag: the user it resolves is passed to the handler
  whatever the flag, and with every user marked inactive it resolves the same user. The
  flag is enforced by login, which refuses an inactive user with status 403.
\<close>

theorem identity_resolution:
  "(get_current_user_dependency e tok db = Inl err \<longrightarrow>
      err = HTTPException 401 ''Could not validate credentials'' \<and>
      authenticated e (Some tok) db handler = (Inl err, db)) \<and>
   ((\<exists>failure. get_current_user_dependency e tok db = Inl failure) \<longleftrightarrow>
      (decode_access_token e tok = None \<or>
       (\<exists>payload. decode_access_token e tok = Some payload \<and>
          (map_of payload ''sub'' = None \<or>
           (\<exists>subject. map_of payload ''sub'' = Some subject \<and>
              \<not> (\<exists>x \<in> set (users (working db)). Str (username x) = subject)))))) \<and>
   (get_current_user_dependency e tok db = Inr u \<longrightarrow>
      authenticated e (Some tok) db handler = handler u \<and>
      get_current_user_dependency e tok (deactivate_all db) = Inr (u\<lparr>is_active := False\<rparr>) \<and>
      authenticated e (Some tok) (deactivate_all db) handler =
        handler (u\<lparr>is_active := False\<rparr>)) \<and>
   (protected ep \<longrightarrow>
      serve e None ep d = (Inl (HTTPException 403 ''Not authenticated''), d)) \<and>
   (login_match (ul_username login_data) d = Some u \<and>
    verify_password (ul_password login_data) (password_hash u) \<and> \<not> is_active u \<longrightarrow>
      serve e header (Login login_data) d =
        (Inl (HTTPException 403 ''User account is inactive''), d))"
proof (intro conjI impI)
  assume a: "get_current_user_dependency e tok db = Inl err"
  from resolver_error [OF a]
  show "err = HTTPException 401 ''Could not validate credentials''"
    by (simp add: credentials_exception_def)
  from authenticated_rejected [OF a] resolver_error [OF a]
  show "authenticated e (Some tok) db handler = (Inl err, db)"
    by simp
next
  show "(\<exists>failure. get_current_user_dependency e tok db = Inl failure) \<longleftrightarrow>
      (decode_access_token e tok = None \<or>
       (\<exists>payload. decode_access_token e tok = Some payload \<and>
          (map_of payload ''sub'' = None \<or>
           (\<exists>subject. map_of payload ''sub'' = Some subject \<and>
              \<not> (\<exists>x \<in> set (users (working db)). Str (username x) = subject)))))"
    by (rule resolver_fails_iff)
next
  assume a: "get_current_user_dependency e tok db = Inr u"
  show "authenticated e (Some tok) db handler = handler u"
    by (rule authenticated_resolved [OF a])
  show b: "get_current_user_dependency e tok (deactivate_all db) = Inr (u\<lparr>is_active := False\<rparr>)"
    by (rule resolver_ignores_active [OF a])
  show "authenticated e (Some tok) (deactivate_all db) handler =
        handler (u\<lparr>is_active := False\<rparr>)"
    by (rule authenticated_resolved [OF b])
next
  assume "protected ep"
  then show "serve e None ep d = (Inl (HTTPException 403 ''Not authenticated''), d)"
    by (rule protected_without_token)
next
  assume "login_match (ul_username login_data) d = Some u \<and>
    verify_password (ul_password login_data) (password_hash u) \<and> \<not> is_active u"
  then show "serve e header (Login login_data) d =
        (Inl (HTTPException 403 ''User account is inactive''), d)"
    by (simp add: login_cases)
qed

text \<open>
  The claim as written fails for the absent token: the request is answered with status
  403 by the bearer scheme, not with 401.
\<close>

theorem identity_resolution_counterexample:
  "fst (serve env0 None Me two_users_db) = Inl (HTTPException 403 ''Not authenticated'')"
  by (simp add: serve_def authenticated_def security_def Let_def)

lemma resolve_bob:
  "get_current_user_dependency env0 (token_of ''bob'' 2800) (begin_session two_users_db) = Inr bob"
  by (simp add: resolver_cases decode_Signed token_of_def env0_def two_users_db_def
      alice_def bob_def)

lemma resolve_expired:
  "get_current_user_dependency env0 (token_of ''bob'' 999) (begin_session two_users_db) =
     Inl credentials_exception"
  by (simp add: resolver_cases decode_Signed token_of_def env0_def)

lemma resolve_unknown:
  "get_current_user_dependency env0 (token_of ''carol'' 2800) (begin_session two_users_db) =
     Inl credentials_exception"
  by (simp add: resolver_cases decode_Signed token_of_def env0_def two_users_db_def
      alice_def bob_def)

theorem identity_resolution_witness:
  "\<not> is_active bob \<and> protected Me \<and>
   serve env0 (Some (token_of ''bob'' 2800)) Me two_users_db =
     (Inr (200, UserBody (model_validate bob)), two_users_db) \<and>
   fst (serve env0 (Some (token_of ''bob'' 999)) Me two_users_db) =
     Inl (HTTPException 401 ''Could not validate credentials'') \<and>
   fst (serve env0 (Some (token_of ''carol'' 2800)) Me two_users_db) =
     Inl (HTTPException 401 ''Could not validate credentials'') \<and>
   fst (serve env0 (Some (Malformed ''not.a.token'')) Me two_users_db) =
     Inl (HTTPException 401 ''Could not validate credentials'') \<and>
   serve env0 None Me two_users_db = (Inl (HTTPException 403 ''Not authenticated''), two_users_db)"
proof -
  let ?h = "\<lambda>current_user. respond 200 (UserBody \<circ> model_validate)
          (get_current_user_info current_user (begin_session two_users_db))"
  have malformed: "get_current_user_dependency env0 (Malformed ''not.a.token'')
      (begin_session two_users_db) = Inl credentials_exception"
    by (simp add: resolver_cases decode_Malformed)
  have ok: "authenticated env0 (Some (token_of ''bob'' 2800)) (begin_session two_users_db) ?h = ?h bob"
    using identity_resolution [of env0 "token_of ''bob'' 2800" "begin_session two_users_db" _ ?h bob]
      resolve_bob by blast
  have expired: "authenticated env0 (Some (token_of ''bob'' 999)) (begin_session two_users_db) ?h =
      (Inl credentials_exception, begin_session two_users_db)"
    using identity_resolution [of env0 "token_of ''bob'' 999" "begin_session two_users_db"
        credentials_exception ?h] resolve_expired by blast
  have unknown: "authenticated env0 (Some (token_of ''carol'' 2800)) (begin_session two_users_db) ?h =
      (Inl credentials_exception, begin_session two_users_db)"
    using identity_resolution [of env0 "token_of ''carol'' 2800" "begin_session two_users_db"
        credentials_exception ?h] resolve_unknown by blast
  have garbage: "authenticated env0 (Some (Malformed ''not.a.token'')) (begin_session two_users_db) ?h =
      (Inl credentials_exception, begin_session two_users_db)"
    using identity_resolution [of env0 "Malformed ''not.a.token''" "begin_session two_users_db"
        credentials_exception ?h] malformed by blast
  have absent: "serve env0 None Me two_users_db =
      (Inl (HTTPException 403 ''Not authenticated''), two_users_db)"
    using identity_resolution [of env0 _ _ _ _ _ Me two_users_db] by simp
  have inactive: "\<not> is_active bob"
    by (simp add: bob_def)
  show ?thesis
    using ok expired unknown garbage absent inactive
    by (simp add: serve_def Let_def respond_def get_current_user_info_def
        credentials_exception_def)
qed

section \<open>Registration\<close>

lemma committed_db_add_user [simp]:
  "committed (snd (db_add_user row db)) = committed db"
  by (simp add: db_add_user_def Let_def)




section \<open>User administration without a token\<close>



lemma users_db_set_user [simp]:
  "users (working (db_set_user row db)) =
     map (\<lambda>r. if user_id r = user_id row then row else r) (users (working db))"
  by (simp add: db_set_user_def)

lemma committed_db_set_user [simp]: "committed (db_set_user row db) = committed db"
  by (simp add: db_set_user_def)

lemma set_user_twice:
  "user_id row2 = user_id row1 \<Longrightarrow>
   db_set_user row2 (db_set_user row1 db) = db_set_user row2 db"
  by (simp add: db_set_user_def comp_def cong: if_cong)













end
